theory Spec2Isabelle
  imports Main
begin

section \<open>Python values\<close>

text \<open>
  The scripts handle JSON documents returned by the hosted service. A Python \<open>str\<close> is a
  sequence of code points, so it is modelled as a list of code-point numbers; \<open>ustr\<close>
  turns an ASCII literal into such a list.
\<close>

type_synonym pystr = "nat list"

definition ustr :: "string \<Rightarrow> pystr" where
  "ustr s = map of_char s"

text \<open>
  A Python \<open>float\<close> is an IEEE binary64 number: a finite value is kept as sign,
  magnitude and binary exponent and stands for \<open>\<plusminus> m * 2 ^ e\<close>.
\<close>

datatype pyfloat = Finite bool nat int | Infinity bool | NaN

datatype pyval =
    PyNone
  | PyBool bool
  | PyInt int
  | PyFloat pyfloat
  | PyStr pystr
  | PyList "pyval list"
  | PyDict "(pystr \<times> pyval) list"

datatype exn =
    OverflowError
  | TypeError
  | AttributeError
  | ValueError
  | IndexError
  | ApiError

subsection \<open>\<open>str\<close> of a value\<close>

fun digits_of :: "nat \<Rightarrow> string" where
  "digits_of n =
     (if n < 10 then [char_of (48 + n)]
      else digits_of (n div 10) @ [char_of (48 + n mod 10)])"

declare digits_of.simps [simp del]

text \<open>
  \<open>str\<close> of an int. CPython (3.11 on, and the security releases of 3.7 to 3.10) refuses
  to convert an int of more than \<open>sys.int_info.default_max_str_digits = 4300\<close> decimal
  digits, the sign not counted, and raises \<open>ValueError\<close>.
\<close>

definition int_max_str_digits :: nat where
  "int_max_str_digits = 4300"

definition str_int :: "int \<Rightarrow> exn + string" where
  "str_int i =
     (if int_max_str_digits < length (digits_of (nat \<bar>i\<bar>)) then Inl ValueError
      else Inr (if i < 0 then CHR ''-'' # digits_of (nat (- i)) else digits_of (nat i)))"

text \<open>
  \<open>str\<close> of a list or a dict takes the \<open>repr\<close> of every element, so it meets the same
  limit when an int of more than 4300 digits occurs anywhere inside.
\<close>

fun too_many_digits :: "pyval \<Rightarrow> bool" where
  "too_many_digits (PyInt i) = (int_max_str_digits < length (digits_of (nat \<bar>i\<bar>)))"
| "too_many_digits (PyList xs) = list_ex too_many_digits xs"
| "too_many_digits (PyDict d) = list_ex (\<lambda>kv. too_many_digits (snd kv)) d"
| "too_many_digits v = False"

text \<open>
  \<open>str\<close> on \<open>None\<close>, a bool, an int and a str is written out. The text that the
  interpreter produces for a float (shortest round-trip digits) and for a container is
  not computed here: it is the parameter \<open>repr\<close>. A float always has a text; a
  container has one unless it holds an int beyond the digit limit.
\<close>

fun py_str :: "(pyval \<Rightarrow> pystr) \<Rightarrow> pyval \<Rightarrow> exn + pystr" where
  "py_str repr PyNone = Inr (ustr ''None'')"
| "py_str repr (PyBool b) = Inr (ustr (if b then ''True'' else ''False''))"
| "py_str repr (PyInt i) = (case str_int i of Inl err \<Rightarrow> Inl err | Inr s \<Rightarrow> Inr (ustr s))"
| "py_str repr (PyStr s) = Inr s"
| "py_str repr v = (if too_many_digits v then Inl ValueError else Inr (repr v))"

subsection \<open>Float arithmetic used by the formatting code\<close>

text \<open>\<open>rdiv_even a b\<close> is \<open>a / b\<close> rounded to the nearest integer, ties to even.\<close>

definition rdiv_even :: "nat \<Rightarrow> nat \<Rightarrow> nat" where
  "rdiv_even a b =
     (let q = a div b; r = a mod b
      in if 2 * r < b then q
         else if b < 2 * r then q + 1
         else if even q then q else q + 1)"

fun ilog2 :: "nat \<Rightarrow> nat" where
  "ilog2 n = (if n < 2 then 0 else Suc (ilog2 (n div 2)))"

declare ilog2.simps [simp del]

text \<open>
  The binary exponent \<open>x\<close> of a positive quotient \<open>a / b\<close>:
  \<open>2 ^ x \<le> a / b < 2 ^ (x + 1)\<close>.
\<close>

definition quot_exponent :: "nat \<Rightarrow> nat \<Rightarrow> int" where
  "quot_exponent a b =
     (if b \<le> a then int (ilog2 (a div b))
      else - int (Suc (ilog2 ((b + a - 1) div a - 1))))"

text \<open>
  \<open>quot_to_double a b\<close> is the binary64 number nearest to \<open>a / b\<close> (round to nearest,
  ties to even, subnormals below \<open>2 ^ -1022\<close>), as mantissa and exponent; the mantissa
  may reach \<open>2 ^ 53\<close> when rounding carries.
\<close>

definition quot_to_double :: "nat \<Rightarrow> nat \<Rightarrow> nat \<times> int" where
  "quot_to_double a b =
     (if a = 0 then (0, 0)
      else let x = max (quot_exponent a b) (- 1022); sh = 52 - x
           in ((if 0 \<le> sh then rdiv_even (a * 2 ^ nat sh) b
                else rdiv_even a (b * 2 ^ nat (- sh))), - sh))"

definition too_large :: "nat \<times> int \<Rightarrow> bool" where
  "too_large d = (case d of (m, e) \<Rightarrow> 0 \<le> e \<and> 2 ^ 1024 \<le> m * 2 ^ nat e)"

text \<open>
  \<open>a / b\<close> on two ints (\<open>long_true_divide\<close>): the correctly rounded quotient, and
  \<open>OverflowError\<close> when it is beyond the range of a float. The divisor is positive at
  every call in the scripts.
\<close>

definition int_truediv :: "int \<Rightarrow> nat \<Rightarrow> exn + pyfloat" where
  "int_truediv a b =
     (let d = quot_to_double (nat \<bar>a\<bar>) b
      in if too_large d then Inl OverflowError
         else Inr (Finite (a < 0) (fst d) (snd d)))"

text \<open>
  \<open>x / b\<close> on a float and a positive int below \<open>2 ^ 53\<close>: the int converts exactly and
  the IEEE division rounds; an overflow gives infinity.
\<close>

fun float_truediv :: "pyfloat \<Rightarrow> nat \<Rightarrow> pyfloat" where
  "float_truediv (Finite s m e) b =
     (let d = (if 0 \<le> e then quot_to_double (m * 2 ^ nat e) b
               else quot_to_double m (b * 2 ^ nat (- e)))
      in if too_large d then Infinity s else Finite s (fst d) (snd d))"
| "float_truediv (Infinity s) b = Infinity s"
| "float_truediv NaN b = NaN"

text \<open>\<open>x >= k\<close> for a float and a non-negative int \<open>k\<close> (an exact comparison).\<close>

fun float_ge :: "pyfloat \<Rightarrow> nat \<Rightarrow> bool" where
  "float_ge (Finite s m e) k =
     (if s then m = 0 \<and> k = 0
      else if 0 \<le> e then k \<le> m * 2 ^ nat e
      else k * 2 ^ nat (- e) \<le> m)"
| "float_ge (Infinity s) k = (\<not> s)"
| "float_ge NaN k = False"

text \<open>
  The format \<open>.1f\<close>: the exact binary value rounded to one decimal, ties to even.
\<close>

fun format_1f :: "pyfloat \<Rightarrow> string" where
  "format_1f (Finite s m e) =
     (let t = (if 0 \<le> e then m * 2 ^ nat e * 10 else rdiv_even (m * 10) (2 ^ nat (- e)))
      in (if s then ''-'' else '''') @ digits_of (t div 10) @ ''.'' @ digits_of (t mod 10))"
| "format_1f (Infinity s) = (if s then ''-inf'' else ''inf'')"
| "format_1f NaN = ''nan''"

section \<open>\<open>format_number\<close> (06_tiktok_scraper.py, 07_twitter_scraper.py)\<close>

text \<open>
  \<open>isinstance(num, (int, float))\<close>: a bool is an int in Python.
\<close>

fun is_int_or_float :: "pyval \<Rightarrow> bool" where
  "is_int_or_float (PyInt i) = True"
| "is_int_or_float (PyBool b) = True"
| "is_int_or_float (PyFloat f) = True"
| "is_int_or_float v = False"

text \<open>\<open>num >= k\<close> and \<open>num / k\<close> for a number \<open>num\<close> and a positive int literal \<open>k\<close>.\<close>

fun num_ge :: "pyval \<Rightarrow> nat \<Rightarrow> bool" where
  "num_ge (PyInt i) k = (int k \<le> i)"
| "num_ge (PyBool b) k = (int k \<le> (if b then 1 else 0))"
| "num_ge (PyFloat f) k = float_ge f k"
| "num_ge v k = False"

fun num_truediv :: "pyval \<Rightarrow> nat \<Rightarrow> exn + pyfloat" where
  "num_truediv (PyInt i) k = int_truediv i k"
| "num_truediv (PyBool b) k = int_truediv (if b then 1 else 0) k"
| "num_truediv (PyFloat f) k = Inr (float_truediv f k)"
| "num_truediv v k = Inl TypeError"

definition format_number :: "(pyval \<Rightarrow> pystr) \<Rightarrow> pyval \<Rightarrow> exn + pystr" where
  "format_number repr num =
     (if \<not> is_int_or_float num then py_str repr num
      else if num_ge num 1000000 then
        (case num_truediv num 1000000 of
           Inl err \<Rightarrow> Inl err
         | Inr q \<Rightarrow> Inr (ustr (format_1f q @ ''M'')))
      else if num_ge num 1000 then
        (case num_truediv num 1000 of
           Inl err \<Rightarrow> Inl err
         | Inr q \<Rightarrow> Inr (ustr (format_1f q @ ''K'')))
      else py_str repr num)"




section \<open>Operations on values used by the scripts\<close>

text \<open>Errors are values: \<open>and_then\<close> runs the next step unless an exception was raised.\<close>

definition and_then :: "exn + 'a \<Rightarrow> ('a \<Rightarrow> exn + 'b) \<Rightarrow> exn + 'b" where
  "and_then r f = (case r of Inl err \<Rightarrow> Inl err | Inr x \<Rightarrow> f x)"

text \<open>The truth value of an object, as \<open>if x:\<close> and \<open>not x\<close> take it.\<close>

fun truthy :: "pyval \<Rightarrow> bool" where
  "truthy PyNone = False"
| "truthy (PyBool b) = b"
| "truthy (PyInt i) = (i \<noteq> 0)"
| "truthy (PyFloat (Finite s m e)) = (m \<noteq> 0)"
| "truthy (PyFloat f) = True"
| "truthy (PyStr s) = (s \<noteq> [])"
| "truthy (PyList xs) = (xs \<noteq> [])"
| "truthy (PyDict d) = (d \<noteq> [])"

text \<open>\<open>d.get(key, default)\<close>: only a dict has the method.\<close>

fun py_get :: "pyval \<Rightarrow> string \<Rightarrow> pyval \<Rightarrow> exn + pyval" where
  "py_get (PyDict d) k dflt = Inr (case map_of d (ustr k) of None \<Rightarrow> dflt | Some v \<Rightarrow> v)"
| "py_get v k dflt = Inl AttributeError"

fun py_len :: "pyval \<Rightarrow> exn + nat" where
  "py_len (PyStr s) = Inr (length s)"
| "py_len (PyList xs) = Inr (length xs)"
| "py_len (PyDict d) = Inr (length d)"
| "py_len v = Inl TypeError"

text \<open>
  \<open>x[:n]\<close>. A str or a list is cut; any other value raises (a dict raises TypeError
  or, from Python 3.12 on, KeyError: both are the \<open>TypeError\<close> of this model).
\<close>

fun py_take :: "nat \<Rightarrow> pyval \<Rightarrow> exn + pyval" where
  "py_take n (PyStr s) = Inr (PyStr (take n s))"
| "py_take n (PyList xs) = Inr (PyList (take n xs))"
| "py_take n v = Inl TypeError"

text \<open>\<open>x + "..."\<close> with a str literal on the right: only a str can be on the left.\<close>

fun py_add_str :: "pyval \<Rightarrow> string \<Rightarrow> exn + pyval" where
  "py_add_str (PyStr s) t = Inr (PyStr (s @ ustr t))"
| "py_add_str v t = Inl TypeError"

text \<open>
  \<open>x += "..."\<close>: a str is concatenated; a list is extended by the characters of the
  literal, one element each.
\<close>

fun py_iadd_str :: "pyval \<Rightarrow> string \<Rightarrow> exn + pyval" where
  "py_iadd_str (PyStr s) t = Inr (PyStr (s @ ustr t))"
| "py_iadd_str (PyList xs) t = Inr (PyList (xs @ map (\<lambda>c. PyStr (ustr [c])) t))"
| "py_iadd_str v t = Inl TypeError"

text \<open>The format \<open>{n:,}\<close> of a non-negative int: digits in groups of three.\<close>

definition pad3 :: "nat \<Rightarrow> string" where
  "pad3 k = [char_of (48 + k div 100), char_of (48 + k div 10 mod 10), char_of (48 + k mod 10)]"

fun commas :: "nat \<Rightarrow> string" where
  "commas n = (if n < 1000 then digits_of n else commas (n div 1000) @ '','' @ pad3 (n mod 1000))"

declare commas.simps [simp del]

text \<open>A float literal \<open>a/b\<close> in decimal notation denotes the nearest binary64 number.\<close>

definition float_lit :: "nat \<Rightarrow> nat \<Rightarrow> pyval" where
  "float_lit a b = (case quot_to_double a b of (m, e) \<Rightarrow> PyFloat (Finite False m e))"

section \<open>Table cells (02_website_content_crawler.py, 08_amazon_scraper.py)\<close>

text \<open>The pattern \<open>if len(x) > n: x = x[:n] + "..."\<close>.\<close>

definition ellipsis :: "nat \<Rightarrow> pyval \<Rightarrow> exn + pyval" where
  "ellipsis n x =
     and_then (py_len x) (\<lambda>k.
       if n < k then and_then (py_take n x) (\<lambda>p. py_add_str p ''...'') else Inr x)"

text \<open>One row of the crawler's table: the body of the loop at lines 147-158.\<close>

definition crawler_row :: "nat \<Rightarrow> pyval \<Rightarrow> exn + pyval list" where
  "crawler_row i item =
     and_then (py_get item ''url'' (PyStr (ustr ''Unknown''))) (\<lambda>url.
     and_then (py_get item ''metadata'' (PyDict [])) (\<lambda>metadata.
     and_then (py_get metadata ''title'' (PyStr (ustr ''No title''))) (\<lambda>title.
     and_then (py_get item ''text'' (PyStr [])) (\<lambda>text.
     and_then (py_len text) (\<lambda>text_length.
     and_then (ellipsis 47 url) (\<lambda>url'.
     and_then (ellipsis 37 title) (\<lambda>title'.
       Inr [PyStr (ustr (digits_of i)), url', title',
            PyStr (ustr (commas text_length @ '' chars''))])))))))"

text \<open>\<open>for i, item in enumerate(items, 1)\<close>: the rows in order, up to the first exception.\<close>

fun table_rows :: "(nat \<Rightarrow> pyval \<Rightarrow> exn + 'r) \<Rightarrow> nat \<Rightarrow> pyval list \<Rightarrow> exn + 'r list" where
  "table_rows row i [] = Inr []"
| "table_rows row i (x # xs) =
     and_then (row i x) (\<lambda>r. and_then (table_rows row (Suc i) xs) (\<lambda>rs. Inr (r # rs)))"

definition crawler_table :: "pyval list \<Rightarrow> exn + pyval list list" where
  "crawler_table items = table_rows crawler_row 1 items"

text \<open>The product title cell of the Amazon table: lines 140-142.\<close>

definition amazon_title :: "pyval \<Rightarrow> exn + pyval" where
  "amazon_title product =
     and_then (py_get product ''title'' (PyStr (ustr ''Unknown''))) (\<lambda>t0.
     and_then (py_take 32 t0) (\<lambda>title.
     and_then (py_get product ''title'' (PyStr [])) (\<lambda>t1.
     and_then (py_len t1) (\<lambda>k.
       if 32 < k then py_iadd_str title ''...'' else Inr title))))"

definition amazon_titles :: "pyval list \<Rightarrow> exn + pyval list" where
  "amazon_titles items = table_rows (\<lambda>i. amazon_title) 1 items"

text \<open>
  The claimed rendering, in the words of the specification: a text longer than \<open>n\<close>
  characters is replaced by its first \<open>n\<close> characters plus three dots, a text within
  the limit is unchanged.
\<close>

definition shorten :: "nat \<Rightarrow> pystr \<Rightarrow> pystr" where
  "shorten n s = (if n < length s then take n s @ ustr ''...'' else s)"

section \<open>Running a script\<close>

text \<open>
  A script reads the process environment and the clock, writes to the console and sends
  requests to the hosted service through the client library. A run is described by the
  events it produces, in order, and by the way the process ends.

  The requests name the operation and the arguments that the scripts choose.
\<close>

datatype request =
    User_get
  | Actors_list
  | Actor_call pystr
  | Actor_start pystr
  | Runs_list
  | Run_get pyval
  | Run_log pyval
  | Dataset_iterate pyval
  | Datasets_list
  | Datasets_get_or_create pystr
  | Dataset_push pyval "pyval list"
  | Dataset_list_items pyval string
  | Dataset_get pyval
  | Dataset_delete pyval
  | Stores_list
  | Stores_get_or_create pystr
  | Record_set pyval pystr pyval
  | Record_get pyval pystr
  | Record_delete pyval pystr
  | Keys_list pyval
  | Store_get pyval
  | Schedules_list
  | Schedule_create pystr pystr bool bool
  | Schedule_get pyval
  | Schedule_delete pyval

text \<open>
  \<open>Print\<close> is a \<open>console.print\<close> (a block of consecutive prints with no branch in
  between is one event, carrying the text that identifies it), \<open>Progress\<close> an update of
  the progress display, \<open>NewClient\<close> the construction \<open>ApifyClient(api_token)\<close>,
  \<open>Request\<close> a request together with what came back (an exception or a document),
  \<open>Sleep\<close> a \<open>time.sleep\<close>.
\<close>

datatype event =
    Print pystr
  | Progress pystr
  | NewClient pystr
  | Request request "exn + pyval"
  | Sleep nat

datatype stop = Exit int | Raise exn

datatype outcome = Finished | Exited int | Uncaught exn

text \<open>
  The service is known by its replies: \<open>replies k\<close> is what the \<open>k\<close>-th request of the run meets,
  an exception or the returned document. An action starts with the number of requests
  sent so far and yields its events, the new number, and a value or the reason the
  script stops (\<open>sys.exit\<close> or a raised exception).
\<close>

type_synonym service = "nat \<Rightarrow> exn + pyval"

type_synonym 'a act = "nat \<Rightarrow> event list \<times> nat \<times> (stop + 'a)"

definition ret :: "'a \<Rightarrow> 'a act" where
  "ret x = (\<lambda>k. ([], k, Inr x))"

definition bind_act :: "'a act \<Rightarrow> ('a \<Rightarrow> 'b act) \<Rightarrow> 'b act" where
  "bind_act m f =
     (\<lambda>k. case m k of
        (t, k', Inl s) \<Rightarrow> (t, k', Inl s)
      | (t, k', Inr x) \<Rightarrow> (case f x k' of (t', k'', r) \<Rightarrow> (t @ t', k'', r)))"

definition seq_act :: "unit act \<Rightarrow> 'b act \<Rightarrow> 'b act" where
  "seq_act m n = bind_act m (\<lambda>u. n)"

definition emit :: "event \<Rightarrow> unit act" where
  "emit ev = (\<lambda>k. ([ev], k, Inr ()))"

definition say :: "string \<Rightarrow> unit act" where
  "say s = emit (Print (ustr s))"

definition sys_exit :: "int \<Rightarrow> 'a act" where
  "sys_exit n = (\<lambda>k. ([], k, Inl (Exit n)))"

definition lift :: "exn + 'a \<Rightarrow> 'a act" where
  "lift r = (\<lambda>k. ([], k, case r of Inl err \<Rightarrow> Inl (Raise err) | Inr x \<Rightarrow> Inr x))"

definition when_act :: "bool \<Rightarrow> unit act \<Rightarrow> unit act" where
  "when_act b m = (if b then m else ret ())"

text \<open>
  \<open>try: m  except Exception as e: h\<close>. A raised exception is handled; \<open>SystemExit\<close>
  is not an \<open>Exception\<close> and passes.
\<close>

definition try_except :: "'a act \<Rightarrow> (exn \<Rightarrow> 'a act) \<Rightarrow> 'a act" where
  "try_except m h =
     (\<lambda>k. case m k of
        (t, k', Inl (Raise err)) \<Rightarrow> (case h err k' of (t', k'', r) \<Rightarrow> (t @ t', k'', r))
      | (t, k', Inl (Exit n)) \<Rightarrow> (t, k', Inl (Exit n))
      | (t, k', Inr x) \<Rightarrow> (t, k', Inr x))"

definition request :: "service \<Rightarrow> request \<Rightarrow> pyval act" where
  "request replies r =
     (\<lambda>k. ([Request r (replies k)], Suc k,
           case replies k of Inl err \<Rightarrow> Inl (Raise err) | Inr v \<Rightarrow> Inr v))"

text \<open>
  Presentation code (building a table from a fetched document, formatting its fields)
  is not followed line by line: \<open>render region v\<close> stands for the code of the named
  source region applied to the fetched value, and gives the lines it prints and the
  exception it raises, if any. Every statement below holds for every \<open>render\<close>.
\<close>

type_synonym renderer = "string \<Rightarrow> pyval \<Rightarrow> pystr list \<times> exn option"

definition region :: "renderer \<Rightarrow> string \<Rightarrow> pyval \<Rightarrow> unit act" where
  "region render name v =
     (\<lambda>k. (map Print (fst (render name v)), k,
           case snd (render name v) of None \<Rightarrow> Inr () | Some err \<Rightarrow> Inl (Raise err)))"

definition run :: "unit act \<Rightarrow> event list \<times> outcome" where
  "run m =
     (case m 0 of
        (t, k, Inr u) \<Rightarrow> (t, Finished)
      | (t, k, Inl (Exit n)) \<Rightarrow> (t, Exited n)
      | (t, k, Inl (Raise err)) \<Rightarrow> (t, Uncaught err))"

text \<open>
  The process environment (\<open>os.environ\<close>) and the clock: \<open>stamp i\<close> is the text of the
  \<open>i\<close>-th reading of \<open>datetime.now()\<close>, in the format the script asks for.
\<close>

record env =
  environ :: "pystr \<rightharpoonup> pystr"
  stamp :: "nat \<Rightarrow> pystr"

text \<open>
  The start of every \<open>main\<close>: the banner, then
  \<open>api_token = os.environ.get("APIFY_API_TOKEN")\<close>; \<open>if not api_token:\<close> the error
  lines and \<open>sys.exit(1)\<close>; otherwise the client is constructed. \<open>between\<close> is what
  01_hello_world.py prints between the check and the construction.
\<close>

definition with_client ::
  "string \<Rightarrow> string list \<Rightarrow> (pystr \<Rightarrow> unit act) \<Rightarrow> env \<Rightarrow> unit act \<Rightarrow> unit act" where
  "with_client banner error_lines between e rest =
     seq_act (say banner)
       (case environ e (ustr ''APIFY_API_TOKEN'') of
          None \<Rightarrow> foldr seq_act (map say error_lines) (sys_exit 1)
        | Some api_token \<Rightarrow>
            if api_token = [] then foldr seq_act (map say error_lines) (sys_exit 1)
            else seq_act (between api_token) (seq_act (emit (NewClient api_token)) rest))"

section \<open>01_hello_world.py\<close>

definition main_01 :: "renderer \<Rightarrow> env \<Rightarrow> service \<Rightarrow> event list \<times> outcome" where
  "main_01 render e replies = run
     (with_client ''01 - Hello World: Getting Started''
        [''[red]Error:[/red] APIFY_API_TOKEN environment variable not set!'',
         ''To set it:'',
         ''  export APIFY_API_TOKEN=your_token_here'',
         ''Get your token from: https://console.apify.com/account/integrations'']
        (\<lambda>api_token.
           seq_act (emit (Print (ustr ''  Token found: '' @ take 20 api_token @ ustr ''...''
                                 @ drop (length api_token - 4) api_token)))
                   (say ''Step 2: Initializing ApifyClient...''))
        e
        (seq_act (say ''Client initialized successfully!'')
        (seq_act (say ''Step 3: Fetching user information...'')
        (seq_act
           (try_except
              (bind_act (request replies User_get) (\<lambda>user_info.
                 region render ''01:78-96'' user_info))
              (\<lambda>err. seq_act (say ''[red]Error fetching user info:[/red]'') (sys_exit 1)))
        (seq_act (say ''Step 4: Listing available actors...'')
        (seq_act
           (try_except
              (bind_act (request replies Actors_list) (\<lambda>actor_list.
                 region render ''01:112-127'' actor_list))
              (\<lambda>err. say ''[yellow]Note:[/yellow] Could not list actors''))
        (say ''Hello World Complete'')))))))"

section \<open>The scraper scripts 02 to 08\<close>

text \<open>
  The seven scripts have one shape and differ in their texts: the banner, the blocks
  printed before the run, the actor, the text shown on success, the lines printed in the
  \<open>except\<close> branch after the progress update, the label of the item count after the
  fetch and in the summary panel, and the code inside \<open>if items:\<close>.
\<close>

record scraper =
  banner :: string
  prelude :: "string list"
  actor_id :: string
  done_text :: string
  error_lines :: "string list"
  count_label :: string
  items_region :: string
  summary_title :: string
  summary_label :: string

definition scraper_main :: "scraper \<Rightarrow> renderer \<Rightarrow> env \<Rightarrow> service \<Rightarrow> event list \<times> outcome" where
  "scraper_main s render e replies = run
     (with_client (banner s) [''[red]Error:[/red] APIFY_API_TOKEN not set!''] (\<lambda>api_token. ret ()) e
        (seq_act (foldr seq_act (map say (prelude s)) (ret ()))
        (bind_act
           (try_except
              (bind_act (request replies (Actor_call (ustr (actor_id s)))) (\<lambda>run_doc.
                 seq_act (emit (Progress (ustr (done_text s)))) (ret run_doc)))
              (\<lambda>err. seq_act (emit (Progress (ustr ''[red]Error'')))
                        (foldr seq_act (map say (error_lines s)) (sys_exit 1))))
           (\<lambda>run_doc.
        seq_act (say ''Results:'')
        (bind_act (lift (py_get run_doc ''defaultDatasetId'' PyNone)) (\<lambda>dataset_id.
        seq_act (say ''  Dataset ID:'')
        (bind_act (request replies (Dataset_iterate dataset_id)) (\<lambda>fetched.
        bind_act (lift (case fetched of PyList xs \<Rightarrow> Inr xs | _ \<Rightarrow> Inl TypeError)) (\<lambda>items.
        seq_act (emit (Print (ustr (''  '' @ count_label s @ '': '' @ digits_of (length items)))))
        (seq_act (when_act (items \<noteq> []) (region render (items_region s) (PyList items)))
        (seq_act (say (replicate 60 CHR ''=''))
        (emit (Print (ustr (summary_title s @ '' '' @ summary_label s @ '': ''
                            @ digits_of (length items))))))))))))))))"

definition crawler_02 :: scraper where
  "crawler_02 = \<lparr>
     banner = ''02 - Website Content Crawler'',
     prelude = [''Configuration:'', ''Running the crawler...''],
     actor_id = ''apify/website-content-crawler'',
     done_text = ''Actor run completed!'',
     error_lines = [],
     count_label = ''Pages crawled'',
     items_region = ''02:139-183'',
     summary_title = ''Crawl Complete!'',
     summary_label = ''Pages crawled'' \<rparr>"

definition web_scraper_03 :: scraper where
  "web_scraper_03 = \<lparr>
     banner = ''03 - Custom Web Scraper with Page Functions'',
     prelude = [''Custom Page Function:'', ''Configuration:'', ''Running the scraper...''],
     actor_id = ''apify/web-scraper'',
     done_text = ''Actor run completed!'',
     error_lines = [''[red]Full error:[/red]''],
     count_label = ''Pages scraped'',
     items_region = ''03:198-244'',
     summary_title = ''Scraping Complete!'',
     summary_label = ''Pages scraped'' \<rparr>"

definition google_maps_04 :: scraper where
  "google_maps_04 = \<lparr>
     banner = ''04 - Google Maps Scraper'',
     prelude = [''Search Configuration:'', ''Running the scraper...''],
     actor_id = ''compass/crawler-google-places'',
     done_text = ''Search completed!'',
     error_lines = [''[yellow]Note:[/yellow] This actor may require specific input format.'',
                    ''[red]Error details:[/red]''],
     count_label = ''Businesses found'',
     items_region = ''04:133-210'',
     summary_title = ''Google Maps Scraping Complete!'',
     summary_label = ''Businesses found'' \<rparr>"

definition instagram_05 :: scraper where
  "instagram_05 = \<lparr>
     banner = ''05 - Instagram Scraper'',
     prelude = [''Configuration:'', ''Running the scraper...''],
     actor_id = ''apify/instagram-scraper'',
     done_text = ''Scraping completed!'',
     error_lines = [''[red]Error details:[/red]''],
     count_label = ''Items scraped'',
     items_region = ''05:137-216'',
     summary_title = ''Instagram Scraping Complete!'',
     summary_label = ''Posts scraped'' \<rparr>"

definition tiktok_06 :: scraper where
  "tiktok_06 = \<lparr>
     banner = ''06 - TikTok Scraper'',
     prelude = [''Configuration:'', ''Running the scraper...''],
     actor_id = ''clockworks/free-tiktok-scraper'',
     done_text = ''Scraping completed!'',
     error_lines = [''[red]Error details:[/red]''],
     count_label = ''Videos scraped'',
     items_region = ''06:141-227'',
     summary_title = ''TikTok Scraping Complete!'',
     summary_label = ''Videos scraped'' \<rparr>"

definition twitter_07 :: scraper where
  "twitter_07 = \<lparr>
     banner = ''07 - Twitter/X Scraper'',
     prelude = [''Configuration:'', ''Running the scraper...''],
     actor_id = ''apidojo/twitter-scraper-lite'',
     done_text = ''Search completed!'',
     error_lines = [''[red]Error details:[/red]''],
     count_label = ''Tweets found'',
     items_region = ''07:139-235'',
     summary_title = ''Twitter Scraping Complete!'',
     summary_label = ''Tweets found'' \<rparr>"

definition amazon_08 :: scraper where
  "amazon_08 = \<lparr>
     banner = ''08 - Amazon Product Scraper'',
     prelude = [''Configuration:'', ''Running the scraper...''],
     actor_id = ''junglee/amazon-crawler'',
     done_text = ''Search completed!'',
     error_lines = [''[red]Error details:[/red]''],
     count_label = ''Products found'',
     items_region = ''08:130-235'',
     summary_title = ''Amazon Scraping Complete!'',
     summary_label = ''Products found'' \<rparr>"

definition scrapers :: "scraper list" where
  "scrapers = [crawler_02, web_scraper_03, google_maps_04, instagram_05, tiktok_06,
               twitter_07, amazon_08]"

section \<open>09_dataset_operations.py\<close>

definition book :: "int \<Rightarrow> string \<Rightarrow> string \<Rightarrow> nat \<Rightarrow> bool \<Rightarrow> string list \<Rightarrow> pyval" where
  "book n name category cents in_stock tags =
     PyDict [(ustr ''id'', PyInt n), (ustr ''name'', PyStr (ustr name)),
             (ustr ''category'', PyStr (ustr category)), (ustr ''price'', float_lit cents 100),
             (ustr ''inStock'', PyBool in_stock),
             (ustr ''tags'', PyList (map (\<lambda>t. PyStr (ustr t)) tags))]"

definition sample_items :: "pyval list" where
  "sample_items =
     [book 1 ''Python Programming'' ''Programming'' 2999 True [''python'', ''coding'', ''beginner''],
      book 2 ''Data Science Handbook'' ''Data Science'' 4999 True [''data'', ''ml'', ''statistics''],
      book 3 ''Web Scraping Mastery'' ''Web Development'' 3499 False
        [''scraping'', ''automation'', ''apify''],
      book 4 ''API Design Patterns'' ''Programming'' 3999 True [''api'', ''rest'', ''design''],
      book 5 ''Machine Learning Basics'' ''Data Science'' 5499 True [''ml'', ''ai'', ''tensorflow'']]"

definition main_09 :: "renderer \<Rightarrow> env \<Rightarrow> service \<Rightarrow> event list \<times> outcome" where
  "main_09 render e replies = run
     (with_client ''09 - Dataset Operations'' [''[red]Error:[/red] APIFY_API_TOKEN not set!'']
        (\<lambda>api_token. ret ()) e
        (seq_act (say ''Step 1: List Existing Datasets'')
        (bind_act (request replies Datasets_list) (\<lambda>existing.
        seq_act (region render ''09:65-83'' existing)
        (seq_act (say ''Step 2: Create a New Dataset'')
        (bind_act (request replies
                     (Datasets_get_or_create (ustr ''learning-lab-demo-'' @ stamp e 0)))
           (\<lambda>new_dataset.
        bind_act (lift (py_get new_dataset ''id'' PyNone)) (\<lambda>dataset_id.
        seq_act (say ''Created dataset'')
        (seq_act (say ''Step 3: Push Items to Dataset'')
        (bind_act (request replies (Dataset_push dataset_id sample_items)) (\<lambda>pushed.
        seq_act (say ''Pushed 5 items to dataset'')
        (seq_act (say ''Step 4: Read Items from Dataset'')
        (bind_act (request replies (Dataset_list_items dataset_id ''limit=3, offset=0''))
           (\<lambda>items_response.
        seq_act (region render ''09:186-187'' items_response)
        (bind_act (request replies (Dataset_iterate dataset_id)) (\<lambda>all_items.
        seq_act (region render ''09:191-192'' all_items)
        (bind_act (request replies (Dataset_list_items dataset_id ''fields=[name, price]''))
           (\<lambda>filtered.
        seq_act (region render ''09:197-198'' filtered)
        (seq_act (say ''Step 5: Export Data Formats'')
        (bind_act (request replies (Dataset_list_items dataset_id ''limit=2''))
           (\<lambda>json_data.
        seq_act (region render ''09:216-220'' json_data)
        (seq_act (say ''Step 6: Dataset Statistics'')
        (bind_act (request replies (Dataset_get dataset_id)) (\<lambda>info.
        seq_act (region render ''09:230-235'' info)
        (seq_act (say ''Step 7: Clean Up'')
        (seq_act (say ''Keeping dataset for your reference.'')
        (say ''Dataset Operations Complete! Items: 5'')))))))))))))))))))))))))))"

section \<open>10_key_value_store.py\<close>

definition config :: pyval where
  "config = PyDict
     [(ustr ''version'', PyStr (ustr ''1.0.0'')),
      (ustr ''environment'', PyStr (ustr ''development'')),
      (ustr ''features'', PyDict [(ustr ''darkMode'', PyBool True),
                                  (ustr ''notifications'', PyBool True),
                                  (ustr ''autoSave'', PyBool False)]),
      (ustr ''limits'', PyDict [(ustr ''maxItems'', PyInt 1000), (ustr ''timeout'', PyInt 30)])]"

definition urls_to_scrape :: pyval where
  "urls_to_scrape = PyList [PyStr (ustr ''https://example.com/page1''),
                            PyStr (ustr ''https://example.com/page2''),
                            PyStr (ustr ''https://example.com/page3'')]"

definition run_state :: "pystr \<Rightarrow> int \<Rightarrow> int \<Rightarrow> pyval" where
  "run_state last_run_at items_processed current_page = PyDict
     [(ustr ''lastRunAt'', PyStr last_run_at), (ustr ''itemsProcessed'', PyInt items_processed),
      (ustr ''errors'', PyList []), (ustr ''currentPage'', PyInt current_page),
      (ustr ''totalPages'', PyInt 10)]"

definition metadata :: pyval where
  "metadata = PyDict
     [(ustr ''createdBy'', PyStr (ustr ''learning-lab'')),
      (ustr ''purpose'', PyStr (ustr ''demonstration'')),
      (ustr ''tags'', PyList [PyStr (ustr ''demo''), PyStr (ustr ''tutorial''),
                              PyStr (ustr ''python'')])]"

definition main_10 :: "renderer \<Rightarrow> env \<Rightarrow> service \<Rightarrow> event list \<times> outcome" where
  "main_10 render e replies = run
     (with_client ''10 - Key-Value Store Operations''
        [''[red]Error:[/red] APIFY_API_TOKEN not set!''] (\<lambda>api_token. ret ()) e
        (seq_act (say ''Step 1: List Existing Key-Value Stores'')
        (bind_act (request replies Stores_list) (\<lambda>existing.
        seq_act (region render ''10:67-83'' existing)
        (seq_act (say ''Step 2: Create a New Key-Value Store'')
        (bind_act (request replies
                     (Stores_get_or_create (ustr ''learning-lab-kvs-'' @ stamp e 0)))
           (\<lambda>new_store.
        bind_act (lift (py_get new_store ''id'' PyNone)) (\<lambda>store_id.
        seq_act (say ''Created store'')
        (seq_act (say ''Step 3: Store Different Value Types'')
        (bind_act (request replies (Record_set store_id (ustr ''config'') config)) (\<lambda>r1.
        seq_act (say ''Stored config (JSON object)'')
        (bind_act (request replies (Record_set store_id (ustr ''status'') (PyStr (ustr ''active''))))
           (\<lambda>r2.
        seq_act (say ''Stored status (text/plain)'')
        (bind_act (request replies (Record_set store_id (ustr ''pending_urls'') urls_to_scrape))
           (\<lambda>r3.
        seq_act (say ''Stored pending_urls (JSON array)'')
        (bind_act (request replies
                     (Record_set store_id (ustr ''state'') (run_state (stamp e 1) 150 5)))
           (\<lambda>r4.
        seq_act (say ''Stored state (run state)'')
        (bind_act (request replies (Record_set store_id (ustr ''metadata'') metadata)) (\<lambda>r5.
        seq_act (say ''Stored metadata'')
        (seq_act (say ''Step 4: Retrieve Values'')
        (bind_act (request replies (Record_get store_id (ustr ''config''))) (\<lambda>config_value.
        seq_act (when_act (truthy config_value) (region render ''10:173-178'' config_value))
        (bind_act (request replies (Record_get store_id (ustr ''status''))) (\<lambda>status_value.
        seq_act (when_act (truthy status_value) (region render ''10:184'' status_value))
        (bind_act (request replies (Record_get store_id (ustr ''pending_urls''))) (\<lambda>urls_value.
        seq_act (when_act (truthy urls_value) (region render ''10:190-191'' urls_value))
        (seq_act (say ''Step 5: List All Keys in Store'')
        (bind_act (request replies (Keys_list store_id)) (\<lambda>keys_response.
        seq_act (region render ''10:201-211'' keys_response)
        (seq_act (say ''Step 6: Update a Value'')
        (bind_act (request replies
                     (Record_set store_id (ustr ''state'') (run_state (stamp e 2) 200 10)))
           (\<lambda>r6.
        seq_act (say ''Updated state record'')
        (bind_act (request replies (Record_get store_id (ustr ''state''))) (\<lambda>new_state.
        seq_act (region render ''10:232-233'' new_state)
        (seq_act (say ''Step 7: Delete a Key'')
        (bind_act (request replies (Record_delete store_id (ustr ''status''))) (\<lambda>r7.
        seq_act (say ''Deleted status record'')
        (bind_act (request replies (Record_get store_id (ustr ''status''))) (\<lambda>deleted_value.
        seq_act (say (if deleted_value = PyNone then ''    Verification: Not found (deleted)''
                      else ''    Verification: Still exists''))
        (seq_act (say ''Step 8: Store Information'')
        (bind_act (request replies (Store_get store_id)) (\<lambda>info.
        seq_act (region render ''10:257-261'' info)
        (seq_act (say ''Step 9: Clean Up'')
        (say ''Key-Value Store Operations Complete!''))))))))))))))))))))))))))))))))))))))))))))"

section \<open>11_run_management.py\<close>

definition max_wait :: nat where
  "max_wait = 60"

definition poll_interval :: nat where
  "poll_interval = 2"

definition terminal_statuses :: "pyval list" where
  "terminal_statuses =
     [PyStr (ustr ''SUCCEEDED''), PyStr (ustr ''FAILED''), PyStr (ustr ''ABORTED''),
      PyStr (ustr ''TIMED-OUT'')]"

text \<open>
  One pass through the body of the \<open>while\<close> loop up to the \<open>break\<close>: the status is
  fetched and shown; the result tells whether the loop is left.
\<close>

definition poll_once :: "service \<Rightarrow> pyval \<Rightarrow> bool act" where
  "poll_once replies run_id =
     bind_act (request replies (Run_get run_id)) (\<lambda>current_run.
     bind_act (lift (py_get current_run ''status'' PyNone)) (\<lambda>status.
     seq_act (emit (Progress (ustr ''Status:'')))
       (if status \<in> set terminal_statuses
        then seq_act (emit (Progress (ustr ''completed=100''))) (ret True)
        else seq_act (emit (Progress (ustr ''completed=min(90, elapsed / max_wait * 100)'')))
               (ret False))))"

function poll_loop :: "service \<Rightarrow> pyval \<Rightarrow> nat \<Rightarrow> unit act" where
  "poll_loop replies run_id elapsed =
     (if elapsed < max_wait then
        bind_act (poll_once replies run_id) (\<lambda>leave.
          if leave then ret ()
          else seq_act (emit (Sleep poll_interval))
                 (poll_loop replies run_id (elapsed + poll_interval)))
      else ret ())"
  by pat_completeness auto
termination
  by (relation "measure (\<lambda>(replies, run_id, elapsed). max_wait - elapsed)")
     (auto simp: poll_interval_def)

declare poll_loop.simps [simp del]

definition main_11 :: "renderer \<Rightarrow> env \<Rightarrow> service \<Rightarrow> event list \<times> outcome" where
  "main_11 render e replies = run
     (with_client ''11 - Run Management'' [''[red]Error:[/red] APIFY_API_TOKEN not set!'']
        (\<lambda>api_token. ret ()) e
        (seq_act (say ''Step 1: List Recent Runs'')
        (bind_act (request replies Runs_list) (\<lambda>recent_runs.
        seq_act (region render ''11:69-112'' recent_runs)
        (seq_act (say ''Step 2: Start a New Actor Run'')
        (bind_act (request replies (Actor_start (ustr ''apify/hello-world''))) (\<lambda>run_info.
        bind_act (lift (py_get run_info ''id'' PyNone)) (\<lambda>run_id.
        seq_act (say ''Run started!'')
        (seq_act (say ''Step 3: Monitor Run Progress'')
        (seq_act (poll_loop replies run_id 0)
        (bind_act (request replies (Run_get run_id)) (\<lambda>final_run.
        bind_act (lift (py_get final_run ''status'' PyNone)) (\<lambda>final_status.
        seq_act (say ''  Final Status:'')
        (seq_act (say ''Step 4: Analyze Run Statistics'')
        (seq_act (region render ''11:200-221'' final_run)
        (seq_act (say ''Step 5: View Run Log'')
        (seq_act
           (try_except
              (bind_act (request replies (Run_log run_id)) (\<lambda>log.
                 region render ''11:231-240'' log))
              (\<lambda>err. say ''  [yellow]Could not fetch log[/yellow]''))
        (seq_act (say ''Step 6: Get Run Output'')
        (bind_act (lift (py_get final_run ''defaultDatasetId'' PyNone)) (\<lambda>dataset_id.
        seq_act
           (when_act (truthy dataset_id)
              (bind_act (request replies (Dataset_iterate dataset_id)) (\<lambda>items.
                 region render ''11:256-262'' items)))
        (bind_act (lift (py_get final_run ''defaultKeyValueStoreId'' PyNone)) (\<lambda>kv_store_id.
        seq_act (when_act (truthy kv_store_id) (say ''  Key-Value Store:''))
        (seq_act (say ''Step 7: Run Management Operations'')
        (region render ''11:291-313'' final_run))))))))))))))))))))))))"

section \<open>12_scheduled_tasks.py\<close>

definition main_12 :: "renderer \<Rightarrow> env \<Rightarrow> service \<Rightarrow> event list \<times> outcome" where
  "main_12 render e replies = run
     (with_client ''12 - Scheduled Tasks and Webhooks''
        [''[red]Error:[/red] APIFY_API_TOKEN not set!''] (\<lambda>api_token. ret ()) e
        (seq_act (say ''Step 1: List Existing Schedules'')
        (bind_act (request replies Schedules_list) (\<lambda>existing.
        seq_act (region render ''12:66-85'' existing)
        (seq_act (say ''Step 2: Understanding Cron Expressions'')
        (seq_act (say ''Step 3: Create a Schedule (Demo)'')
        (bind_act
           (try_except
              (bind_act (request replies
                           (Schedule_create (ustr ''learning-lab-demo-'' @ stamp e 0)
                              (ustr ''0 9 * * 1'') False False))
                 (\<lambda>new_schedule.
               bind_act (lift (py_get new_schedule ''id'' PyNone)) (\<lambda>schedule_id.
               seq_act (say ''Schedule created!'') (ret schedule_id))))
              (\<lambda>err. seq_act (say ''  [yellow]Note:[/yellow] Could not create schedule'')
                        (ret PyNone)))
           (\<lambda>schedule_id.
        seq_act (say ''Step 4: Schedule Operations'')
        (seq_act
           (when_act (truthy schedule_id)
              (bind_act (request replies (Schedule_get schedule_id)) (\<lambda>info.
                 region render ''12:178-188'' info)))
        (seq_act (say ''Step 5: Understanding Webhooks'')
        (seq_act (say ''Step 8: Clean Up'')
        (seq_act
           (when_act (truthy schedule_id)
              (seq_act (say ''  [dim]Deleting demo schedule...[/dim]'')
                 (try_except
                    (bind_act (request replies (Schedule_delete schedule_id)) (\<lambda>deleted.
                       say ''Demo schedule deleted''))
                    (\<lambda>err. say ''  [yellow]Could not delete[/yellow]''))))
        (say ''Scheduling & Webhooks Complete!'')))))))))))))"

text \<open>The twelve scripts.\<close>

definition scripts :: "(renderer \<Rightarrow> env \<Rightarrow> service \<Rightarrow> event list \<times> outcome) list" where
  "scripts = main_01 # map scraper_main scrapers @ [main_09, main_10, main_11, main_12]"

section \<open>The hosted storage\<close>

text \<open>
  Modelled from the spec: the datasets, key-value stores and schedules live in the hosted
  service, whose code is not part of the repository. The specification describes a
  dataset as an append-only ordered sequence of records, a key-value store as a mapping
  from string keys to payloads with content-type metadata supporting get, set, delete
  and list-keys, and a schedule as a named definition with an enabled flag.
\<close>

record kv_record =
  payload :: pyval
  content_type :: "pystr option"

type_synonym kv_store = "pystr \<rightharpoonup> kv_record"

definition set_record :: "pystr \<Rightarrow> pyval \<Rightarrow> pystr option \<Rightarrow> kv_store \<Rightarrow> kv_store" where
  "set_record key v ct store = store(key \<mapsto> \<lparr>payload = v, content_type = ct\<rparr>)"

definition get_record :: "pystr \<Rightarrow> kv_store \<Rightarrow> pyval" where
  "get_record key store =
     (case store key of
        None \<Rightarrow> PyNone
      | Some r \<Rightarrow> PyDict [(ustr ''key'', PyStr key), (ustr ''value'', payload r),
                          (ustr ''content_type'',
                           case content_type r of None \<Rightarrow> PyNone | Some ct \<Rightarrow> PyStr ct)])"

definition delete_record :: "pystr \<Rightarrow> kv_store \<Rightarrow> kv_store" where
  "delete_record key store = store(key := None)"

record storage =
  datasets :: "pyval \<rightharpoonup> pyval list"
  stores :: "pyval \<rightharpoonup> kv_store"
  schedules :: "pyval \<rightharpoonup> bool"

definition reply_id :: "pyval \<Rightarrow> pyval" where
  "reply_id reply = (case py_get reply ''id'' PyNone of Inl err \<Rightarrow> PyNone | Inr i \<Rightarrow> i)"

definition store_of :: "storage \<Rightarrow> pyval \<Rightarrow> kv_store" where
  "store_of st i = (case stores st i of None \<Rightarrow> Map.empty | Some s \<Rightarrow> s)"

text \<open>What a request that succeeded, with the reply it got, has done to the storage.\<close>

fun serve :: "request \<Rightarrow> pyval \<Rightarrow> storage \<Rightarrow> storage" where
  "serve (Datasets_get_or_create name) reply st =
     (case datasets st (reply_id reply) of
        None \<Rightarrow> st\<lparr>datasets := (datasets st)(reply_id reply \<mapsto> [])\<rparr>
      | Some xs \<Rightarrow> st)"
| "serve (Dataset_push i items) reply st =
     st\<lparr>datasets := (datasets st)(i \<mapsto> (case datasets st i of None \<Rightarrow> [] | Some xs \<Rightarrow> xs) @ items)\<rparr>"
| "serve (Dataset_delete i) reply st = st\<lparr>datasets := (datasets st)(i := None)\<rparr>"
| "serve (Stores_get_or_create name) reply st =
     (case stores st (reply_id reply) of
        None \<Rightarrow> st\<lparr>stores := (stores st)(reply_id reply \<mapsto> Map.empty)\<rparr>
      | Some s \<Rightarrow> st)"
| "serve (Record_set i key v) reply st =
     st\<lparr>stores := (stores st)(i \<mapsto> set_record key v None (store_of st i))\<rparr>"
| "serve (Record_delete i key) reply st =
     st\<lparr>stores := (stores st)(i \<mapsto> delete_record key (store_of st i))\<rparr>"
| "serve (Schedule_create name cron is_enabled is_exclusive) reply st =
     st\<lparr>schedules := (schedules st)(reply_id reply \<mapsto> is_enabled)\<rparr>"
| "serve (Schedule_delete i) reply st = st\<lparr>schedules := (schedules st)(i := None)\<rparr>"
| "serve r reply st = st"

fun replay :: "event list \<Rightarrow> storage \<Rightarrow> storage" where
  "replay [] st = st"
| "replay (Request r (Inr reply) # evs) st = replay evs (serve r reply st)"
| "replay (ev # evs) st = replay evs st"

text \<open>The requests of a run, and the time it spends asleep.\<close>

fun requests_of :: "event list \<Rightarrow> request list" where
  "requests_of [] = []"
| "requests_of (Request r reply # evs) = r # requests_of evs"
| "requests_of (ev # evs) = requests_of evs"

fun slept :: "event list \<Rightarrow> nat" where
  "slept [] = 0"
| "slept (Sleep n # evs) = n + slept evs"
| "slept (ev # evs) = slept evs"

fun is_print :: "event \<Rightarrow> bool" where
  "is_print (Print l) = True"
| "is_print ev = False"

text \<open>The \<open>k\<close>-th request is answered by a document whose status field reads \<open>st\<close>.\<close>

definition reported :: "service \<Rightarrow> nat \<Rightarrow> pyval \<Rightarrow> bool" where
  "reported replies k st = (\<exists>doc. replies k = Inr doc \<and> py_get doc ''status'' PyNone = Inr st)"


text \<open>
  The requests of a run that met an exception, and the property that none of them is
  sent again: no later request of the run is the same operation on the same arguments.
\<close>

fun failed_of :: "event list \<Rightarrow> request list" where
  "failed_of [] = []"
| "failed_of (Request r (Inl err) # evs) = r # failed_of evs"
| "failed_of (ev # evs) = failed_of evs"

fun no_retry :: "event list \<Rightarrow> bool" where
  "no_retry [] = True"
| "no_retry (Request r (Inl err) # evs) = (r \<notin> set (requests_of evs) \<and> no_retry evs)"
| "no_retry (ev # evs) = no_retry evs"

section \<open>Rounding lemmas\<close>
























lemma format_number_other:
  "\<not> is_int_or_float v \<Longrightarrow> format_number repr v = py_str repr v"
  by (simp add: format_number_def)

section \<open>Claims on \<open>format_number\<close>\<close>

lemmas format_number_eval =
  format_number_def int_truediv_def quot_to_double_def quot_exponent_def ilog2.simps
  rdiv_even_def too_large_def ustr_def digits_of.simps str_int_def int_max_str_digits_def Let_def

text \<open>
  C2. \<open>format_number\<close> at the boundary values: 999 is rendered as \<open>999\<close>, 1000 as
  \<open>1.0K\<close> and 1000000 as \<open>1.0M\<close>; 999999 is at least 1000 and below 1000000, so it
  takes the K branch, where the quotient 999.999 is rounded to one decimal and the result
  is \<open>1000.0K\<close>: a K-suffixed string whose numeric prefix is not below 1000.
\<close>

theorem format_number_boundary_values:
  "format_number repr (PyInt 999) = Inr (ustr ''999'')
   \<and> format_number repr (PyInt 1000) = Inr (ustr ''1.0K'')
   \<and> format_number repr (PyInt 1000000) = Inr (ustr ''1.0M'')
   \<and> format_number repr (PyInt 999999) = Inr (ustr ''1000.0K'')"
  by (simp add: format_number_eval)




section \<open>Claims on the table cells\<close>

lemma and_then_Inr: "and_then r f = Inr y \<longleftrightarrow> (\<exists>x. r = Inr x \<and> f x = Inr y)"
  by (cases r) (simp_all add: and_then_def)

lemma shorten_length: "length (shorten n s) \<le> n + 3"
  by (simp add: shorten_def ustr_def)

lemma ellipsis_str: "ellipsis n (PyStr s) = Inr (PyStr (shorten n s))"
  by (simp add: ellipsis_def and_then_def shorten_def)

lemma ellipsis_len:
  assumes "ellipsis n x = Inr y"
  shows "\<exists>k\<le>n + 3. py_len y = Inr k"
proof (cases x)
  case (PyStr s)
  with assms have "y = PyStr (shorten n s)" by (simp add: ellipsis_str)
  then show ?thesis using shorten_length [of n s] by simp
next
  case (PyList xs)
  with assms show ?thesis
    by (auto simp: ellipsis_def and_then_def split: if_splits)
next
  case (PyDict d)
  with assms show ?thesis
    by (auto simp: ellipsis_def and_then_def split: if_splits)
qed (use assms in \<open>simp_all add: ellipsis_def and_then_def\<close>)

lemma table_rows_cells:
  "table_rows row i xs = Inr rs \<Longrightarrow> r \<in> set rs \<Longrightarrow> \<exists>j x. row j x = Inr r"
proof (induction xs arbitrary: i rs)
  case Nil
  then show ?case by simp
next
  case (Cons x xs)
  from Cons.prems(1) obtain r0 rs0 where
    r0: "row i x = Inr r0" and rs0: "table_rows row (Suc i) xs = Inr rs0" and rs: "rs = r0 # rs0"
    by (auto simp: and_then_Inr)
  show ?case
  proof (cases "r = r0")
    case True
    with r0 show ?thesis by blast
  next
    case False
    with Cons.prems(2) rs have "r \<in> set rs0" by simp
    from Cons.IH [OF rs0 this] show ?thesis .
  qed
qed

lemma crawler_row_cells:
  assumes "crawler_row i item = Inr row"
  shows "length row = 4 \<and> (\<exists>k\<le>50. py_len (row ! 1) = Inr k) \<and> (\<exists>k\<le>40. py_len (row ! 2) = Inr k)"
proof -
  from assms obtain url title c0 c3 url' title' where
    u: "ellipsis 47 url = Inr url'" and t: "ellipsis 37 title = Inr title'"
    and row: "row = [c0, url', title', c3]"
    unfolding crawler_row_def and_then_Inr by auto
  from ellipsis_len [OF u] ellipsis_len [OF t] row show ?thesis by simp
qed

lemma amazon_title_len:
  assumes "amazon_title product = Inr c"
  shows "\<exists>k\<le>35. py_len c = Inr k"
proof -
  from assms obtain t0 title and k :: nat where
    t0: "py_get product ''title'' (PyStr (ustr ''Unknown'')) = Inr t0"
    and title: "py_take 32 t0 = Inr title"
    and c: "(if 32 < k then py_iadd_str title ''...'' else Inr title) = Inr c"
    unfolding amazon_title_def and_then_Inr by auto
  from title have "\<exists>j\<le>32. py_len title = Inr j" by (cases t0) auto
  then obtain j where j: "j \<le> 32" "py_len title = Inr j" by blast
  show ?thesis
  proof (cases "32 < k")
    case True
    with c have "py_iadd_str title ''...'' = Inr c" by simp
    with j show ?thesis by (cases title) (auto simp: ustr_def)
  next
    case False
    with c j show ?thesis by auto
  qed
qed

text \<open>
  C7. Every row of the crawler's table has a URL cell of at most 50 characters and a
  title cell of at most 40; a URL or title that is a string is rendered as the
  specification says (first 47, respectively 37, characters plus three dots when
  longer, unchanged otherwise). Every product title cell of the Amazon table has at most
  35 characters, and a string title is its first 32 characters plus three dots when it
  is longer than 32, unchanged otherwise.
\<close>

theorem table_cells_truncated:
  "(crawler_table items = Inr rows \<longrightarrow>
      (\<forall>row\<in>set rows. length row = 4 \<and> (\<exists>k\<le>50. py_len (row ! 1) = Inr k)
                                      \<and> (\<exists>k\<le>40. py_len (row ! 2) = Inr k)))
   \<and> (crawler_row i (PyDict d) = Inr row \<and> map_of d (ustr ''url'') = Some (PyStr u) \<longrightarrow>
        row ! 1 = PyStr (shorten 47 u))
   \<and> (crawler_row i (PyDict d) = Inr row \<and> map_of d (ustr ''metadata'') = Some (PyDict m)
        \<and> map_of m (ustr ''title'') = Some (PyStr t) \<longrightarrow>
        row ! 2 = PyStr (shorten 37 t))
   \<and> (amazon_titles items = Inr cells \<longrightarrow> (\<forall>c\<in>set cells. \<exists>k\<le>35. py_len c = Inr k))
   \<and> (map_of d (ustr ''title'') = Some (PyStr t) \<longrightarrow>
        amazon_title (PyDict d) = Inr (PyStr (shorten 32 t)))"
proof (intro conjI impI ballI)
  fix row assume "crawler_table items = Inr rows" and "row \<in> set rows"
  then obtain j x where "crawler_row j x = Inr row"
    unfolding crawler_table_def by (blast dest: table_rows_cells)
  then have cells: "length row = 4 \<and> (\<exists>k\<le>50. py_len (row ! 1) = Inr k)
      \<and> (\<exists>k\<le>40. py_len (row ! 2) = Inr k)"
    by (rule crawler_row_cells)
  from cells show "length row = 4" by simp
  from cells show "\<exists>k\<le>50. py_len (row ! 1) = Inr k" by simp
  from cells show "\<exists>k\<le>40. py_len (row ! 2) = Inr k" by simp
next
  assume "crawler_row i (PyDict d) = Inr row \<and> map_of d (ustr ''url'') = Some (PyStr u)"
  then show "row ! 1 = PyStr (shorten 47 u)"
    by (auto simp: crawler_row_def and_then_Inr ellipsis_str)
next
  assume "crawler_row i (PyDict d) = Inr row \<and> map_of d (ustr ''metadata'') = Some (PyDict m)
    \<and> map_of m (ustr ''title'') = Some (PyStr t)"
  then show "row ! 2 = PyStr (shorten 37 t)"
    by (auto simp: crawler_row_def and_then_Inr ellipsis_str)
next
  fix c assume "amazon_titles items = Inr cells" and "c \<in> set cells"
  then obtain x where "amazon_title x = Inr c"
    unfolding amazon_titles_def by (blast dest: table_rows_cells)
  then show "\<exists>k\<le>35. py_len c = Inr k" by (rule amazon_title_len)
next
  assume "map_of d (ustr ''title'') = Some (PyStr t)"
  then show "amazon_title (PyDict d) = Inr (PyStr (shorten 32 t))"
    by (simp add: amazon_title_def and_then_def shorten_def)
qed

theorem table_cells_truncated_witness:
  "crawler_table [PyDict [(ustr ''url'', PyStr (replicate 48 65)),
                          (ustr ''metadata'', PyDict [(ustr ''title'', PyStr (replicate 38 66))])]]
     = Inr [[PyStr (ustr ''1''), PyStr (replicate 47 65 @ ustr ''...''),
             PyStr (replicate 37 66 @ ustr ''...''), PyStr (ustr ''0 chars'')]]
   \<and> length (replicate 47 (65::nat) @ ustr ''...'') = 50
   \<and> length (replicate 37 (66::nat) @ ustr ''...'') = 40
   \<and> amazon_titles [PyDict [(ustr ''title'', PyStr (replicate 33 67))]]
     = Inr [PyStr (replicate 32 67 @ ustr ''...'')]
   \<and> amazon_title (PyDict [(ustr ''title'', PyStr (ustr ''Earbuds''))]) = Inr (PyStr (ustr ''Earbuds''))"
proof -
  let ?item = "PyDict [(ustr ''url'', PyStr (replicate 48 65)),
                       (ustr ''metadata'', PyDict [(ustr ''title'', PyStr (replicate 38 66))])]"
  let ?row = "[PyStr (ustr ''1''), PyStr (replicate 47 65 @ ustr ''...''),
               PyStr (replicate 37 66 @ ustr ''...''), PyStr (ustr ''0 chars'')]"
  have row: "crawler_row 1 ?item = Inr ?row"
    by (simp add: crawler_row_def and_then_def ellipsis_def ustr_def digits_of.simps commas.simps)
  then have table: "crawler_table [?item] = Inr [?row]"
    by (simp add: crawler_table_def and_then_def)
  have titles: "amazon_titles [PyDict [(ustr ''title'', PyStr (replicate 33 67))]]
      = Inr [PyStr (replicate 32 67 @ ustr ''...'')]"
    by (simp add: amazon_titles_def amazon_title_def and_then_def ustr_def)
  from table titles
    table_cells_truncated [where items = "[?item]" and rows = "[?row]" and i = 1
      and d = "[(ustr ''url'', PyStr (replicate 48 65)),
                (ustr ''metadata'', PyDict [(ustr ''title'', PyStr (replicate 38 66))])]"
      and row = ?row and u = "replicate 48 65"
      and m = "[(ustr ''title'', PyStr (replicate 38 66))]" and t = "replicate 38 66"
      and cells = "[PyStr (replicate 32 67 @ ustr ''...'')]"]
    table_cells_truncated [where d = "[(ustr ''title'', PyStr (ustr ''Earbuds''))]"
      and t = "ustr ''Earbuds''"]
    table_cells_truncated [where items = "[PyDict [(ustr ''title'', PyStr (replicate 33 67))]]"
      and cells = "[PyStr (replicate 32 67 @ ustr ''...'')]"]
  show ?thesis by (simp add: ustr_def shorten_def)
qed

section \<open>Reasoning about runs\<close>

lemmas act_defs = ret_def bind_act_def seq_act_def emit_def say_def sys_exit_def lift_def
  when_act_def try_except_def request_def region_def

lemma foldr_say:
  "foldr seq_act (map say ls) m =
     (\<lambda>k. case m k of (t, k', r) \<Rightarrow> (map (\<lambda>l. Print (ustr l)) ls @ t, k', r))"
  by (induction ls) (auto simp: act_defs fun_eq_iff split: prod.splits sum.splits)

lemma with_client_no_token:
  assumes "environ e (ustr ''APIFY_API_TOKEN'') = None"
  shows "run (with_client b errs btw e rest) = (map (\<lambda>l. Print (ustr l)) (b # errs), Exited 1)"
  using assms
  by (simp add: with_client_def run_def foldr_say seq_act_def bind_act_def say_def emit_def
      sys_exit_def)

lemma with_client_token:
  assumes "environ e (ustr ''APIFY_API_TOKEN'') = Some tok" "tok \<noteq> []"
  shows "with_client b errs btw e rest =
         seq_act (say b) (seq_act (btw tok) (seq_act (emit (NewClient tok)) rest))"
  using assms by (simp add: with_client_def)

lemma digits_of_0: "digits_of 0 = ''0''"
  by code_simp

section \<open>Claims on the scripts\<close>

text \<open>
  C1. In each of the twelve scripts, when \<open>APIFY_API_TOKEN\<close> is not in the environment
  the run consists of console output only (the banner, then the error message), so no
  client is constructed and no request is sent, and the process exits with status 1.
\<close>

theorem missing_token_exits:
  "s \<in> set scripts \<Longrightarrow> environ e (ustr ''APIFY_API_TOKEN'') = None \<Longrightarrow>
     snd (s render e replies) = Exited 1
     \<and> list_all is_print (fst (s render e replies))
     \<and> (\<forall>ev\<in>set (fst (s render e replies)).
           (\<forall>tok. ev \<noteq> NewClient tok) \<and> (\<forall>r x. ev \<noteq> Request r x))
     \<and> length (fst (s render e replies)) \<ge> 2
     \<and> fst (s render e replies) ! 1 \<in>
         {Print (ustr ''[red]Error:[/red] APIFY_API_TOKEN not set!''),
          Print (ustr ''[red]Error:[/red] APIFY_API_TOKEN environment variable not set!'')}"
  unfolding scripts_def scrapers_def
  by (auto simp: main_01_def main_09_def main_10_def main_11_def main_12_def scraper_main_def
      with_client_no_token)

theorem missing_token_exits_witness:
  "main_12 \<in> set scripts
   \<and> environ \<lparr>environ = Map.empty, stamp = (\<lambda>i. [])\<rparr> (ustr ''APIFY_API_TOKEN'') = None
   \<and> main_12 (\<lambda>n v. ([], None)) \<lparr>environ = Map.empty, stamp = (\<lambda>i. [])\<rparr> (\<lambda>k. Inr PyNone)
       = ([Print (ustr ''12 - Scheduled Tasks and Webhooks''),
           Print (ustr ''[red]Error:[/red] APIFY_API_TOKEN not set!'')], Exited 1)"
  using missing_token_exits [of main_12 "\<lparr>environ = Map.empty, stamp = (\<lambda>i. [])\<rparr>"
      "\<lambda>n v. ([], None)" "\<lambda>k. Inr PyNone"]
  by (simp add: scripts_def main_12_def with_client_no_token)

text \<open>
  C5. In each of the scraper scripts 02 to 08, when the actor run succeeds and its dataset
  yields no item, the run is exactly: the start of the script, the two requests, the
  count line with 0, the rule and the summary panel with 0. Nothing of the code inside
  \<open>if items:\<close> (the table and the sample sections) takes part, whatever it would do,
  and the script ends normally.
\<close>

theorem empty_result_set_rendered:
  assumes "s \<in> set scrapers"
    and "environ e (ustr ''APIFY_API_TOKEN'') = Some tok" and "tok \<noteq> []"
    and "replies 0 = Inr run_doc"
    and "py_get run_doc ''defaultDatasetId'' PyNone = Inr ds"
    and "replies 1 = Inr (PyList [])"
  shows "scraper_main s render e replies =
     (Print (ustr (banner s)) # NewClient tok # map (\<lambda>l. Print (ustr l)) (prelude s) @
      [Request (Actor_call (ustr (actor_id s))) (Inr run_doc), Progress (ustr (done_text s)),
       Print (ustr ''Results:''), Print (ustr ''  Dataset ID:''),
       Request (Dataset_iterate ds) (Inr (PyList [])),
       Print (ustr (''  '' @ count_label s @ '': 0'')),
       Print (ustr (replicate 60 CHR ''='')),
       Print (ustr (summary_title s @ '' '' @ summary_label s @ '': 0''))], Finished)"
  using assms(2-)
  by (simp add: scraper_main_def with_client_token foldr_say run_def act_defs digits_of_0)

theorem empty_result_set_witness:
  "amazon_08 \<in> set scrapers
   \<and> scraper_main amazon_08 (\<lambda>n v. ([], Some TypeError))
        \<lparr>environ = [ustr ''APIFY_API_TOKEN'' \<mapsto> ustr ''token''], stamp = (\<lambda>i. [])\<rparr>
        (\<lambda>k. if k = 0 then Inr (PyDict [(ustr ''defaultDatasetId'', PyStr (ustr ''d1''))])
              else Inr (PyList []))
      = ([Print (ustr ''08 - Amazon Product Scraper''), NewClient (ustr ''token''),
          Print (ustr ''Configuration:''), Print (ustr ''Running the scraper...''),
          Request (Actor_call (ustr ''junglee/amazon-crawler''))
            (Inr (PyDict [(ustr ''defaultDatasetId'', PyStr (ustr ''d1''))])),
          Progress (ustr ''Search completed!''),
          Print (ustr ''Results:''), Print (ustr ''  Dataset ID:''),
          Request (Dataset_iterate (PyStr (ustr ''d1''))) (Inr (PyList [])),
          Print (ustr ''  Products found: 0''),
          Print (ustr (replicate 60 CHR ''='')),
          Print (ustr ''Amazon Scraping Complete! Products found: 0'')], Finished)"
  using empty_result_set_rendered [of amazon_08
      "\<lparr>environ = [ustr ''APIFY_API_TOKEN'' \<mapsto> ustr ''token''], stamp = (\<lambda>i. [])\<rparr>"
      "ustr ''token''"
      "\<lambda>k. if k = 0 then Inr (PyDict [(ustr ''defaultDatasetId'', PyStr (ustr ''d1''))])
           else Inr (PyList [])"
      "PyDict [(ustr ''defaultDatasetId'', PyStr (ustr ''d1''))]"
      "PyStr (ustr ''d1'')"
      "\<lambda>n v. ([], Some TypeError)"]
  by (simp add: scrapers_def amazon_08_def ustr_def)


section \<open>The polling loop of 11_run_management.py\<close>

lemma requests_of_append: "requests_of (a @ b) = requests_of a @ requests_of b"
  by (induction a rule: requests_of.induct) simp_all

lemma slept_append: "slept (a @ b) = slept a + slept b"
  by (induction a rule: slept.induct) simp_all

lemma poll_once_reported:
  assumes "reported replies k st"
  shows "\<exists>t. poll_once replies rid k = (t, Suc k, Inr (st \<in> set terminal_statuses))
             \<and> length (requests_of t) = 1 \<and> slept t = 0"
  using assms by (auto simp: reported_def poll_once_def act_defs)

lemma poll_once_any:
  "\<exists>t k' r. poll_once replies rid k = (t, k', r) \<and> length (requests_of t) = 1 \<and> slept t = 0
     \<and> (\<forall>n. Sleep n \<notin> set t)"
  by (auto simp: poll_once_def act_defs split: sum.splits)

lemma poll_loop_done: "max_wait \<le> elapsed \<Longrightarrow> poll_loop replies rid elapsed k = ([], k, Inr ())"
  by (simp add: poll_loop.simps ret_def)

lemma poll_loop_step:
  assumes "elapsed < max_wait"
  shows "poll_loop replies rid elapsed k =
     (case poll_once replies rid k of
        (t, k', Inl s) \<Rightarrow> (t, k', Inl s)
      | (t, k', Inr leave) \<Rightarrow>
          if leave then (t, k', Inr ())
          else (case poll_loop replies rid (elapsed + poll_interval) k' of
                  (t', k'', r) \<Rightarrow> (t @ Sleep poll_interval # t', k'', r)))"
  using assms
  by (subst poll_loop.simps) (auto simp: act_defs split: prod.splits sum.splits)

lemma poll_loop_exhausts:
  assumes "n \<le> 30" and "\<forall>j<n. \<exists>st. reported replies (k + j) st \<and> st \<notin> set terminal_statuses"
  shows "\<exists>t. poll_loop replies rid (max_wait - 2 * n) k = (t, k + n, Inr ())
            \<and> length (requests_of t) = n \<and> slept t = 2 * n"
  using assms
proof (induction n arbitrary: k)
  case 0
  then show ?case by (simp add: poll_loop_done)
next
  case (Suc n)
  from Suc.prems(2) obtain st where st: "reported replies k st" "st \<notin> set terminal_statuses"
    by force
  from poll_once_reported [OF st(1), of rid] st(2) obtain t0 where
    t0: "poll_once replies rid k = (t0, Suc k, Inr False)" "length (requests_of t0) = 1" "slept t0 = 0"
    by auto
  have "\<forall>j<n. \<exists>st. reported replies (Suc k + j) st \<and> st \<notin> set terminal_statuses"
    using Suc.prems(2) by (metis add_Suc_shift Suc_less_eq)
  with Suc.IH [of "Suc k"] Suc.prems(1) obtain t where
    t: "poll_loop replies rid (max_wait - 2 * n) (Suc k) = (t, Suc k + n, Inr ())"
       "length (requests_of t) = n" "slept t = 2 * n"
    by auto
  have lt: "max_wait - 2 * Suc n < max_wait" using Suc.prems(1) by (simp add: max_wait_def)
  have nx: "max_wait - 2 * Suc n + poll_interval = max_wait - 2 * n"
    using Suc.prems(1) by (simp add: max_wait_def poll_interval_def)
  have "poll_loop replies rid (max_wait - 2 * Suc n) k = (t0 @ Sleep poll_interval # t, Suc k + n, Inr ())"
    by (subst poll_loop_step [OF lt]) (simp only: nx t0 t prod.case sum.case if_False)
  then show ?case
    using t0 t by (simp add: requests_of_append slept_append poll_interval_def)
qed

lemma poll_loop_breaks:
  assumes "j < n" and "n \<le> 30"
    and "\<forall>i<j. \<exists>st. reported replies (k + i) st \<and> st \<notin> set terminal_statuses"
    and "reported replies (k + j) st" and "st \<in> set terminal_statuses"
  shows "\<exists>t. poll_loop replies rid (max_wait - 2 * n) k = (t, k + j + 1, Inr ())
            \<and> length (requests_of t) = j + 1 \<and> slept t = 2 * j"
  using assms
proof (induction j arbitrary: k n)
  case 0
  from poll_once_reported [of replies k st rid] "0.prems" obtain t0 where
    t0: "poll_once replies rid k = (t0, Suc k, Inr True)" "length (requests_of t0) = 1" "slept t0 = 0"
    by auto
  have lt: "max_wait - 2 * n < max_wait" using "0.prems" by (simp add: max_wait_def)
  have "poll_loop replies rid (max_wait - 2 * n) k = (t0, Suc k, Inr ())"
    by (subst poll_loop_step [OF lt]) (simp only: t0 prod.case sum.case if_True)
  with t0 show ?case by simp
next
  case (Suc j)
  from Suc.prems(1) obtain n' where n': "n = Suc n'" by (cases n) auto
  from Suc.prems(3) obtain s0 where s0: "reported replies k s0" "s0 \<notin> set terminal_statuses"
    by force
  from poll_once_reported [OF s0(1), of rid] s0(2) obtain t0 where
    t0: "poll_once replies rid k = (t0, Suc k, Inr False)" "length (requests_of t0) = 1" "slept t0 = 0"
    by auto
  have before: "\<forall>i<j. \<exists>st. reported replies (Suc k + i) st \<and> st \<notin> set terminal_statuses"
    using Suc.prems(3) by (metis add_Suc_shift Suc_less_eq)
  have at: "reported replies (Suc k + j) st" using Suc.prems(4) by simp
  from Suc.IH [of n' "Suc k", OF _ _ before at Suc.prems(5)] Suc.prems(1,2) n' obtain t where
    t: "poll_loop replies rid (max_wait - 2 * n') (Suc k) = (t, Suc k + j + 1, Inr ())"
       "length (requests_of t) = j + 1" "slept t = 2 * j"
    by auto
  have lt: "max_wait - 2 * n < max_wait" using Suc.prems(1) by (simp add: max_wait_def)
  have nx: "max_wait - 2 * n + poll_interval = max_wait - 2 * n'"
    using Suc.prems(2) n' by (simp add: max_wait_def poll_interval_def)
  have "poll_loop replies rid (max_wait - 2 * n) k = (t0 @ Sleep poll_interval # t, Suc k + j + 1, Inr ())"
    by (subst poll_loop_step [OF lt]) (simp only: nx t0 t prod.case sum.case if_False)
  then show ?case
    using t0 t by (simp add: requests_of_append slept_append poll_interval_def)
qed

lemma poll_loop_bounded:
  assumes "n \<le> 30" and "poll_loop replies rid (max_wait - 2 * n) k = (t, k', r)"
  shows "length (requests_of t) \<le> n \<and> slept t \<le> 2 * n \<and> (\<forall>d. Sleep d \<in> set t \<longrightarrow> d = poll_interval)
         \<and> set (requests_of t) \<subseteq> {Run_get rid}"
  using assms
proof (induction n arbitrary: k t k' r)
  case 0
  then show ?case by (simp add: poll_loop_done)
next
  case (Suc n)
  obtain t0 k0 r0 where
    t0: "poll_once replies rid k = (t0, k0, r0)" "length (requests_of t0) = 1" "slept t0 = 0"
        "\<forall>d. Sleep d \<notin> set t0"
    using poll_once_any [of replies rid k] by blast
  have rq: "set (requests_of t0) \<subseteq> {Run_get rid}"
    using t0(1) by (auto simp: poll_once_def act_defs split: sum.splits if_splits)
  have lt: "max_wait - 2 * Suc n < max_wait" using Suc.prems(1) by (simp add: max_wait_def)
  have nx: "max_wait - 2 * Suc n + poll_interval = max_wait - 2 * n"
    using Suc.prems(1) by (simp add: max_wait_def poll_interval_def)
  show ?case
  proof (cases r0)
    case (Inl s)
    with Suc.prems(2) t0 rq show ?thesis unfolding poll_loop_step [OF lt] by auto
  next
    case (Inr leave)
    show ?thesis
    proof (cases leave)
      case True
      with Inr Suc.prems(2) t0 rq show ?thesis unfolding poll_loop_step [OF lt] by auto
    next
      case False
      obtain t1 k1 r1 where t1: "poll_loop replies rid (max_wait - 2 * n) k0 = (t1, k1, r1)"
        by (cases "poll_loop replies rid (max_wait - 2 * n) k0") auto
      from Suc.IH [OF _ t1] Suc.prems(1)
      have ih: "length (requests_of t1) \<le> n" "slept t1 \<le> 2 * n"
        "\<forall>d. Sleep d \<in> set t1 \<longrightarrow> d = poll_interval" "set (requests_of t1) \<subseteq> {Run_get rid}"
        by auto
      from Suc.prems(2) have "t = t0 @ Sleep poll_interval # t1"
        unfolding poll_loop_step [OF lt] nx t0 Inr using False t1 by simp
      with ih t0 rq show ?thesis
        by (auto simp: requests_of_append slept_append poll_interval_def)
    qed
  qed
qed


text \<open>
  C3. The loop of the run-management script, started at \<open>elapsed = 0\<close>, sends at most
  30 status requests and sleeps at most 60 seconds in all, two seconds at a time,
  whatever the service answers. If none of the first 30 reported statuses is terminal, it
  polls 30 times, sleeps 60 seconds and ends normally. If the status reported at poll
  \<open>j\<close> (counted from 0, \<open>j < 30\<close>) is the first one among SUCCEEDED, FAILED, ABORTED
  and TIMED-OUT, the loop is left right after that poll: \<open>j + 1\<close> polls and \<open>2 * j\<close>
  seconds of sleep.
\<close>

theorem polling_loop_bounded:
  "(case poll_loop replies run_id 0 k of (t, k', r) \<Rightarrow>
      length (requests_of t) \<le> 30 \<and> slept t \<le> 60 \<and> (\<forall>d. Sleep d \<in> set t \<longrightarrow> d = 2)
      \<and> set (requests_of t) \<subseteq> {Run_get run_id})
   \<and> ((\<forall>i<30. \<exists>st. reported replies (k + i) st \<and> st \<notin> set terminal_statuses) \<longrightarrow>
        (\<exists>t. poll_loop replies run_id 0 k = (t, k + 30, Inr ())
             \<and> length (requests_of t) = 30 \<and> slept t = 60))
   \<and> (j < 30 \<and> (\<forall>i<j. \<exists>st. reported replies (k + i) st \<and> st \<notin> set terminal_statuses)
        \<and> reported replies (k + j) st
        \<and> st \<in> {PyStr (ustr ''SUCCEEDED''), PyStr (ustr ''FAILED''), PyStr (ustr ''ABORTED''),
                 PyStr (ustr ''TIMED-OUT'')} \<longrightarrow>
        (\<exists>t. poll_loop replies run_id 0 k = (t, k + j + 1, Inr ())
             \<and> length (requests_of t) = j + 1 \<and> slept t = 2 * j))"
proof (intro conjI impI)
  obtain t k' r where res: "poll_loop replies run_id 0 k = (t, k', r)"
    by (cases "poll_loop replies run_id 0 k") auto
  then have "poll_loop replies run_id (max_wait - 2 * 30) k = (t, k', r)"
    by (simp add: max_wait_def)
  from poll_loop_bounded [OF _ this] res
  show "case poll_loop replies run_id 0 k of (t, k', r) \<Rightarrow>
      length (requests_of t) \<le> 30 \<and> slept t \<le> 60 \<and> (\<forall>d. Sleep d \<in> set t \<longrightarrow> d = 2)
      \<and> set (requests_of t) \<subseteq> {Run_get run_id}"
    by (simp add: poll_interval_def)
next
  assume "\<forall>i<30. \<exists>st. reported replies (k + i) st \<and> st \<notin> set terminal_statuses"
  from poll_loop_exhausts [OF _ this, of run_id]
  show "\<exists>t. poll_loop replies run_id 0 k = (t, k + 30, Inr ())
             \<and> length (requests_of t) = 30 \<and> slept t = 60"
    by (simp add: max_wait_def)
next
  assume a: "j < 30 \<and> (\<forall>i<j. \<exists>st. reported replies (k + i) st \<and> st \<notin> set terminal_statuses)
        \<and> reported replies (k + j) st
        \<and> st \<in> {PyStr (ustr ''SUCCEEDED''), PyStr (ustr ''FAILED''), PyStr (ustr ''ABORTED''),
                 PyStr (ustr ''TIMED-OUT'')}"
  then have "st \<in> set terminal_statuses" by (simp add: terminal_statuses_def)
  with a poll_loop_breaks [of j 30 replies k st run_id]
  show "\<exists>t. poll_loop replies run_id 0 k = (t, k + j + 1, Inr ())
             \<and> length (requests_of t) = j + 1 \<and> slept t = 2 * j"
    by (simp add: max_wait_def)
qed

theorem polling_loop_witness:
  "reported (\<lambda>k. Inr (PyDict [(ustr ''status'', PyStr (ustr (if k = 1 then ''SUCCEEDED'' else ''RUNNING'')))]))
     0 (PyStr (ustr ''RUNNING''))
   \<and> PyStr (ustr ''RUNNING'') \<notin> set terminal_statuses
   \<and> reported (\<lambda>k. Inr (PyDict [(ustr ''status'', PyStr (ustr (if k = 1 then ''SUCCEEDED'' else ''RUNNING'')))]))
     1 (PyStr (ustr ''SUCCEEDED''))
   \<and> (\<exists>t. poll_loop (\<lambda>k. Inr (PyDict [(ustr ''status'', PyStr (ustr (if k = 1 then ''SUCCEEDED'' else ''RUNNING'')))]))
            (PyStr (ustr ''run1'')) 0 0 = (t, 2, Inr ())
          \<and> length (requests_of t) = 2 \<and> slept t = 2)"
proof -
  let ?R = "\<lambda>k::nat. (Inr (PyDict [(ustr ''status'',
      PyStr (ustr (if k = 1 then ''SUCCEEDED'' else ''RUNNING'')))]) :: exn + pyval)"
  let ?S = "PyStr (ustr ''SUCCEEDED'')"
  have r0: "reported ?R 0 (PyStr (ustr ''RUNNING''))" by (simp add: reported_def)
  have nt: "PyStr (ustr ''RUNNING'') \<notin> set terminal_statuses"
    by (simp add: terminal_statuses_def ustr_def)
  have r1: "reported ?R 1 ?S" by (simp add: reported_def)
  have hyp: "(1::nat) < 30 \<and> (\<forall>i<1. \<exists>st. reported ?R (0 + i) st \<and> st \<notin> set terminal_statuses)
      \<and> reported ?R (0 + 1) ?S
      \<and> ?S \<in> {PyStr (ustr ''SUCCEEDED''), PyStr (ustr ''FAILED''), PyStr (ustr ''ABORTED''),
               PyStr (ustr ''TIMED-OUT'')}"
    using r0 nt r1 by auto
  from polling_loop_bounded [where replies = ?R and run_id = "PyStr (ustr ''run1'')"
      and k = 0 and j = 1 and st = ?S] hyp
  have "\<exists>t. poll_loop ?R (PyStr (ustr ''run1'')) 0 0 = (t, 0 + 1 + 1, Inr ())
      \<and> length (requests_of t) = 1 + 1 \<and> slept t = 2 * 1"
    by blast
  then have "\<exists>t. poll_loop ?R (PyStr (ustr ''run1'')) 0 0 = (t, 2, Inr ())
      \<and> length (requests_of t) = 2 \<and> slept t = 2"
    by (simp add: numeral_2_eq_2)
  with r0 nt r1 show ?thesis by blast
qed

section \<open>The paths of a run\<close>

text \<open>
  How an action can end normally (\<open>Inr\<close>) and how it can stop (\<open>Inl\<close>), combinator by
  combinator: these equations unfold a statement about the run of a script into its paths.
\<close>

lemma replay_append: "replay (a @ b) st = replay b (replay a st)"
  by (induction a st rule: replay.induct) simp_all

lemma replay_prints: "replay (map Print ls) st = st"
  by (induction ls) simp_all

lemma bind_act_Inr:
  "bind_act m f k = (t, k'', Inr y) \<longleftrightarrow>
     (\<exists>t1 k' x t2. m k = (t1, k', Inr x) \<and> f x k' = (t2, k'', Inr y) \<and> t = t1 @ t2)"
  by (auto simp: bind_act_def split: prod.splits sum.splits)

lemma seq_act_Inr:
  "seq_act m n k = (t, k'', Inr y) \<longleftrightarrow>
     (\<exists>t1 k' t2. m k = (t1, k', Inr ()) \<and> n k' = (t2, k'', Inr y) \<and> t = t1 @ t2)"
  by (auto simp: seq_act_def bind_act_Inr)

lemma request_Inr:
  "request replies r k = (t, k', Inr v) \<longleftrightarrow> replies k = Inr v \<and> t = [Request r (Inr v)] \<and> k' = Suc k"
  by (auto simp: request_def split: sum.splits)

lemma say_Inr: "say s k = (t, k', Inr u) \<longleftrightarrow> t = [Print (ustr s)] \<and> k' = k"
  by (auto simp: say_def emit_def)

lemma emit_Inr: "emit ev k = (t, k', Inr u) \<longleftrightarrow> t = [ev] \<and> k' = k"
  by (auto simp: emit_def)

lemma ret_Inr: "ret x k = (t, k', Inr y) \<longleftrightarrow> t = [] \<and> k' = k \<and> y = x"
  by (auto simp: ret_def)

lemma lift_Inr: "lift r k = (t, k', Inr x) \<longleftrightarrow> r = Inr x \<and> t = [] \<and> k' = k"
  by (auto simp: lift_def split: sum.splits)

lemma region_Inr:
  "region render name v k = (t, k', Inr u) \<longleftrightarrow>
     snd (render name v) = None \<and> t = map Print (fst (render name v)) \<and> k' = k"
  by (auto simp: region_def split: option.splits)

lemma with_client_Inr:
  "with_client b errs btw e rest k = (t, k', Inr u) \<longleftrightarrow>
     (\<exists>tok. environ e (ustr ''APIFY_API_TOKEN'') = Some tok \<and> tok \<noteq> [] \<and>
        seq_act (say b) (seq_act (btw tok) (seq_act (emit (NewClient tok)) rest)) k = (t, k', Inr u))"
  by (auto simp: with_client_def foldr_say seq_act_Inr say_Inr sys_exit_def split: option.splits prod.splits)

lemma run_Finished: "run m = (t, Finished) \<longleftrightarrow> (\<exists>k'. m 0 = (t, k', Inr ()))"
  by (auto simp: run_def split: prod.splits sum.splits stop.splits)


lemma bind_act_Inl:
  "bind_act m f k = (t, k'', Inl s) \<longleftrightarrow>
     m k = (t, k'', Inl s)
     \<or> (\<exists>t1 k' x t2. m k = (t1, k', Inr x) \<and> f x k' = (t2, k'', Inl s) \<and> t = t1 @ t2)"
  by (auto simp: bind_act_def split: prod.splits sum.splits)

lemma seq_act_Inl:
  "seq_act m n k = (t, k'', Inl s) \<longleftrightarrow>
     m k = (t, k'', Inl s)
     \<or> (\<exists>t1 k' t2. m k = (t1, k', Inr ()) \<and> n k' = (t2, k'', Inl s) \<and> t = t1 @ t2)"
  by (auto simp: seq_act_def bind_act_Inl)

lemma request_Inl:
  "request replies r k = (t, k', Inl s) \<longleftrightarrow>
     (\<exists>err. replies k = Inl err \<and> s = Raise err \<and> t = [Request r (Inl err)] \<and> k' = Suc k)"
  by (auto simp: request_def split: sum.splits)

lemma say_Inl: "say s k = (t, k', Inl x) \<longleftrightarrow> False"
  by (auto simp: say_def emit_def)

lemma emit_Inl: "emit ev k = (t, k', Inl x) \<longleftrightarrow> False"
  by (auto simp: emit_def)

lemma ret_Inl: "ret x k = (t, k', Inl y) \<longleftrightarrow> False"
  by (auto simp: ret_def)

lemma sys_exit_Inl: "sys_exit n k = (t, k', Inl s) \<longleftrightarrow> s = Exit n \<and> t = [] \<and> k' = k"
  by (auto simp: sys_exit_def)

lemma sys_exit_Inr: "sys_exit n k = (t, k', Inr x) \<longleftrightarrow> False"
  by (auto simp: sys_exit_def)

lemma lift_Inl: "lift r k = (t, k', Inl s) \<longleftrightarrow> (\<exists>err. r = Inl err \<and> s = Raise err \<and> t = [] \<and> k' = k)"
  by (auto simp: lift_def split: sum.splits)

lemma region_Inl:
  "region render name v k = (t, k', Inl s) \<longleftrightarrow>
     (\<exists>err. snd (render name v) = Some err \<and> s = Raise err
        \<and> t = map Print (fst (render name v)) \<and> k' = k)"
  by (auto simp: region_def split: option.splits)

lemma try_except_Inr:
  "try_except m h k = (t, k'', Inr x) \<longleftrightarrow>
     m k = (t, k'', Inr x)
     \<or> (\<exists>t1 k' err t2. m k = (t1, k', Inl (Raise err)) \<and> h err k' = (t2, k'', Inr x) \<and> t = t1 @ t2)"
  by (auto simp: try_except_def split: prod.splits sum.splits stop.splits)

lemma try_except_Inl:
  "try_except m h k = (t, k'', Inl s) \<longleftrightarrow>
     (\<exists>n. m k = (t, k'', Inl (Exit n)) \<and> s = Exit n)
     \<or> (\<exists>t1 k' err t2. m k = (t1, k', Inl (Raise err)) \<and> h err k' = (t2, k'', Inl s) \<and> t = t1 @ t2)"
  by (auto simp: try_except_def split: prod.splits sum.splits stop.splits)

lemma when_act_Inr:
  "when_act b m k = (t, k', Inr u) \<longleftrightarrow> (b \<and> m k = (t, k', Inr u)) \<or> (\<not> b \<and> t = [] \<and> k' = k)"
  by (auto simp: when_act_def ret_def)

lemma when_act_Inl:
  "when_act b m k = (t, k', Inl s) \<longleftrightarrow> b \<and> m k = (t, k', Inl s)"
  by (auto simp: when_act_def ret_def)

lemma foldr_say_Inl:
  "foldr seq_act (map say ls) m k = (t, k', Inl s) \<longleftrightarrow>
     (\<exists>t2. m k = (t2, k', Inl s) \<and> t = map (\<lambda>l. Print (ustr l)) ls @ t2)"
  by (auto simp: foldr_say split: prod.splits)

lemma foldr_say_Inr:
  "foldr seq_act (map say ls) m k = (t, k', Inr x) \<longleftrightarrow>
     (\<exists>t2. m k = (t2, k', Inr x) \<and> t = map (\<lambda>l. Print (ustr l)) ls @ t2)"
  by (auto simp: foldr_say split: prod.splits)

lemma with_client_Inl:
  "with_client b errs btw e rest k = (t, k', Inl s) \<longleftrightarrow>
     ((environ e (ustr ''APIFY_API_TOKEN'') = None \<or> environ e (ustr ''APIFY_API_TOKEN'') = Some [])
        \<and> s = Exit 1 \<and> t = map (\<lambda>l. Print (ustr l)) (b # errs) \<and> k' = k)
     \<or> (\<exists>tok. environ e (ustr ''APIFY_API_TOKEN'') = Some tok \<and> tok \<noteq> [] \<and>
        seq_act (say b) (seq_act (btw tok) (seq_act (emit (NewClient tok)) rest)) k = (t, k', Inl s))"
  by (auto simp: with_client_def seq_act_Inl seq_act_Inr say_Inr say_Inl foldr_say_Inl sys_exit_Inl
      split: option.splits)

lemma run_Exited: "run m = (t, Exited n) \<longleftrightarrow> (\<exists>k'. m 0 = (t, k', Inl (Exit n)))"
  by (auto simp: run_def split: prod.splits sum.splits stop.splits)

lemma run_Uncaught: "run m = (t, Uncaught err) \<longleftrightarrow> (\<exists>k'. m 0 = (t, k', Inl (Raise err)))"
  by (auto simp: run_def split: prod.splits sum.splits stop.splits)

lemmas act_iffs = bind_act_Inr seq_act_Inr request_Inr say_Inr emit_Inr ret_Inr lift_Inr region_Inr
  with_client_Inr run_Finished bind_act_Inl seq_act_Inl request_Inl say_Inl emit_Inl ret_Inl
  sys_exit_Inl sys_exit_Inr lift_Inl region_Inl try_except_Inr try_except_Inl when_act_Inr
  when_act_Inl foldr_say_Inl foldr_say_Inr with_client_Inl run_Exited run_Uncaught


section \<open>Claims on the stored data\<close>

text \<open>
  C9. The dataset-operations script sends no delete request on any path. When it runs to
  its end (every path that reaches the clean-up step does, since only console output
  follows), the dataset whose id the service returned holds, after the whole run, what
  it held before followed by the five pushed items: nothing after the push changes it.
\<close>

theorem dataset_kept:
  assumes "main_09 render e replies = (t, out)"
  shows "(\<forall>d x. Request (Dataset_delete d) x \<notin> set t)
     \<and> (out = Finished \<and> replies 1 = Inr new_dataset \<longrightarrow>
          datasets (replay t st) (reply_id new_dataset)
            = Some ((case datasets st (reply_id new_dataset) of None \<Rightarrow> [] | Some xs \<Rightarrow> xs)
                    @ sample_items)
          \<and> length sample_items = 5)"
proof -
  have no_delete: "Request (Dataset_delete d) x \<notin> set t" for d x
    using assms by (cases out) (auto simp: main_09_def act_iffs)
  have kept: "datasets (replay t st) (reply_id new_dataset)
            = Some ((case datasets st (reply_id new_dataset) of None \<Rightarrow> [] | Some xs \<Rightarrow> xs)
                    @ sample_items)"
    if "out = Finished" "replies 1 = Inr new_dataset"
    using assms that
    by (clarsimp simp: main_09_def act_iffs replay_append replay_prints reply_id_def
        split: option.splits)
  have five: "length sample_items = 5" by (simp add: sample_items_def)
  from no_delete kept five show ?thesis by blast
qed

theorem dataset_kept_witness:
  "snd (main_09 (\<lambda>n v. ([], None)) 
       \<lparr>environ = [ustr ''APIFY_API_TOKEN'' \<mapsto> ustr ''token''], stamp = (\<lambda>i. [])\<rparr> (\<lambda>k. Inr (PyDict [(ustr ''id'', PyStr (ustr ''ds1''))])))
     = Finished
   \<and> datasets (replay (fst (main_09 (\<lambda>n v. ([], None)) 
       \<lparr>environ = [ustr ''APIFY_API_TOKEN'' \<mapsto> ustr ''token''], stamp = (\<lambda>i. [])\<rparr>
                  (\<lambda>k. Inr (PyDict [(ustr ''id'', PyStr (ustr ''ds1''))]))))
                \<lparr>datasets = Map.empty, stores = Map.empty, schedules = Map.empty\<rparr>)
        (PyStr (ustr ''ds1'')) = Some sample_items"
proof -
  let ?R = "\<lambda>k::nat. (Inr (PyDict [(ustr ''id'', PyStr (ustr ''ds1''))]) :: exn + pyval)"
  let ?run = "main_09 (\<lambda>n v. ([], None)) 
       \<lparr>environ = [ustr ''APIFY_API_TOKEN'' \<mapsto> ustr ''token''], stamp = (\<lambda>i. [])\<rparr> ?R"
  have fin: "snd ?run = Finished"
    by (simp add: main_09_def with_client_token run_def act_defs ustr_def)
  then have run: "?run = (fst ?run, Finished)" by (metis prod.collapse)
  have id: "reply_id (PyDict [(ustr ''id'', PyStr (ustr ''ds1''))]) = PyStr (ustr ''ds1'')"
    by (simp add: reply_id_def)
  from dataset_kept [OF run, where new_dataset = "PyDict [(ustr ''id'', PyStr (ustr ''ds1''))]"
      and st = "\<lparr>datasets = Map.empty, stores = Map.empty, schedules = Map.empty\<rparr>"]
  show ?thesis using fin by (simp add: id)
qed

text \<open>
  A run of 12_scheduled_tasks.py in which the creation returns the id \<open>s1\<close> and the
  \<open>schedule.get()\<close> of Step 4 raises.
\<close>

lemma schedule_left_behind_run:
  "main_12 (\<lambda>n v. ([], None)) 
       \<lparr>environ = [ustr ''APIFY_API_TOKEN'' \<mapsto> ustr ''token''], stamp = (\<lambda>i. [])\<rparr>
     (\<lambda>k. if k = 2 then Inl ApiError else Inr (PyDict [(ustr ''id'', PyStr (ustr ''s1''))]))
   = ([Print (ustr ''12 - Scheduled Tasks and Webhooks''), NewClient (ustr ''token''),
       Print (ustr ''Step 1: List Existing Schedules''),
       Request Schedules_list (Inr (PyDict [(ustr ''id'', PyStr (ustr ''s1''))])),
       Print (ustr ''Step 2: Understanding Cron Expressions''),
       Print (ustr ''Step 3: Create a Schedule (Demo)''),
       Request (Schedule_create (ustr ''learning-lab-demo-'') (ustr ''0 9 * * 1'') False False)
         (Inr (PyDict [(ustr ''id'', PyStr (ustr ''s1''))])),
       Print (ustr ''Schedule created!''),
       Print (ustr ''Step 4: Schedule Operations''),
       Request (Schedule_get (PyStr (ustr ''s1''))) (Inl ApiError)],
      Uncaught ApiError)"
  by (simp add: main_12_def with_client_token run_def act_defs ustr_def)

text \<open>
  C10. The demo schedule is always created with \<open>is_enabled=False\<close>, so a run never adds
  an enabled schedule to the service. When the creation failed, no delete request is
  sent. On a run that reaches its end after a creation that returned a non-empty
  schedule id, the delete request for that schedule has been sent. But the delete is not
  attempted on every path on which the creation succeeded: Step 4 calls
  \<open>schedule.get()\<close> and prints its reply outside any \<open>try\<close>. When that request raises,
  or when the code printing its reply raises, the run ends there with the exception
  uncaught: the schedule had been created under the id asked for, and no delete request
  is sent.
\<close>

theorem schedule_cleanup:
  assumes "main_12 render e replies = (t, out)"
  shows "(\<forall>n c en ex x. Request (Schedule_create n c en ex) x \<in> set t \<longrightarrow> \<not> en)
     \<and> (\<forall>i. schedules (replay t st) i = Some True \<longrightarrow> schedules st i = Some True)
     \<and> (out = Finished \<and> replies 1 = Inr new_schedule
          \<and> py_get new_schedule ''id'' PyNone = Inr schedule_id \<and> truthy schedule_id \<longrightarrow>
          Request (Schedule_delete schedule_id) (replies 3) \<in> set t)
     \<and> ((\<exists>err. replies 1 = Inl err) \<longrightarrow> (\<forall>i x. Request (Schedule_delete i) x \<notin> set t))
     \<and> (\<forall>i err. Request (Schedule_get i) (Inl err) \<in> set t \<longrightarrow>
            out = Uncaught err \<and> truthy i
            \<and> (\<exists>created. Request (Schedule_create (ustr ''learning-lab-demo-'' @ stamp e 0)
                   (ustr ''0 9 * * 1'') False False) (Inr created) \<in> set t
                 \<and> py_get created ''id'' PyNone = Inr i)
            \<and> (\<forall>j x. Request (Schedule_delete j) x \<notin> set t))
     \<and> (\<forall>i info err. Request (Schedule_get i) (Inr info) \<in> set t
            \<and> snd (render ''12:178-188'' info) = Some err \<longrightarrow>
            out = Uncaught err \<and> (\<forall>j x. Request (Schedule_delete j) x \<notin> set t))"
proof -
  have disabled: "\<not> en" if "Request (Schedule_create n c en ex) x \<in> set t" for n c en ex x
    using assms that by (cases out) (auto simp: main_12_def act_iffs)
  have none_enabled: "schedules st i = Some True" if "schedules (replay t st) i = Some True" for i
    using assms that
    by (cases out) (auto simp: main_12_def act_iffs replay_append replay_prints split: if_splits)
  have deleted: "Request (Schedule_delete schedule_id) (replies 3) \<in> set t"
    if "out = Finished \<and> replies 1 = Inr new_schedule
          \<and> py_get new_schedule ''id'' PyNone = Inr schedule_id \<and> truthy schedule_id"
    using assms that by (auto simp: main_12_def act_iffs numeral_3_eq_3)
  have not_created: "Request (Schedule_delete i) x \<notin> set t" if "\<exists>err. replies 1 = Inl err" for i x
    using assms that by (cases out) (auto simp: main_12_def act_iffs)
  have left_behind:
    "(\<forall>i err. Request (Schedule_get i) (Inl err) \<in> set t \<longrightarrow>
            out = Uncaught err \<and> truthy i
            \<and> (\<exists>created. Request (Schedule_create (ustr ''learning-lab-demo-'' @ stamp e 0)
                   (ustr ''0 9 * * 1'') False False) (Inr created) \<in> set t
                 \<and> py_get created ''id'' PyNone = Inr i)
            \<and> (\<forall>j x. Request (Schedule_delete j) x \<notin> set t))
     \<and> (\<forall>i info err. Request (Schedule_get i) (Inr info) \<in> set t
            \<and> snd (render ''12:178-188'' info) = Some err \<longrightarrow>
            out = Uncaught err \<and> (\<forall>j x. Request (Schedule_delete j) x \<notin> set t))"
    using assms by (cases out) (auto simp: main_12_def act_iffs)
  from disabled none_enabled deleted not_created left_behind show ?thesis by blast
qed

theorem schedule_cleanup_witness:
  "snd (main_12 (\<lambda>n v. ([], None)) 
       \<lparr>environ = [ustr ''APIFY_API_TOKEN'' \<mapsto> ustr ''token''], stamp = (\<lambda>i. [])\<rparr>
          (\<lambda>k. Inr (PyDict [(ustr ''id'', PyStr (ustr ''s1''))])))
     = Finished
   \<and> truthy (PyStr (ustr ''s1''))
   \<and> Request (Schedule_delete (PyStr (ustr ''s1''))) (Inr (PyDict [(ustr ''id'', PyStr (ustr ''s1''))]))
       \<in> set (fst (main_12 (\<lambda>n v. ([], None)) 
       \<lparr>environ = [ustr ''APIFY_API_TOKEN'' \<mapsto> ustr ''token''], stamp = (\<lambda>i. [])\<rparr>
                   (\<lambda>k. Inr (PyDict [(ustr ''id'', PyStr (ustr ''s1''))]))))
   \<and> Request (Schedule_get (PyStr (ustr ''s1''))) (Inl ApiError)
       \<in> set (fst (main_12 (\<lambda>n v. ([], None)) 
       \<lparr>environ = [ustr ''APIFY_API_TOKEN'' \<mapsto> ustr ''token''], stamp = (\<lambda>i. [])\<rparr>
                   (\<lambda>k. if k = 2 then Inl ApiError
                         else Inr (PyDict [(ustr ''id'', PyStr (ustr ''s1''))]))))
   \<and> (\<forall>j x. Request (Schedule_delete j) x
       \<notin> set (fst (main_12 (\<lambda>n v. ([], None)) 
       \<lparr>environ = [ustr ''APIFY_API_TOKEN'' \<mapsto> ustr ''token''], stamp = (\<lambda>i. [])\<rparr>
                   (\<lambda>k. if k = 2 then Inl ApiError
                         else Inr (PyDict [(ustr ''id'', PyStr (ustr ''s1''))])))))"
proof -
  let ?doc = "PyDict [(ustr ''id'', PyStr (ustr ''s1''))]"
  let ?run = "main_12 (\<lambda>n v. ([], None)) 
       \<lparr>environ = [ustr ''APIFY_API_TOKEN'' \<mapsto> ustr ''token''], stamp = (\<lambda>i. [])\<rparr> (\<lambda>k. Inr ?doc)"
  let ?leak = "main_12 (\<lambda>n v. ([], None)) 
       \<lparr>environ = [ustr ''APIFY_API_TOKEN'' \<mapsto> ustr ''token''], stamp = (\<lambda>i. [])\<rparr> (\<lambda>k. if k = 2 then Inl ApiError else Inr ?doc)"
  have fin: "snd ?run = Finished"
    by (simp add: main_12_def with_client_token run_def act_defs ustr_def)
  then have run: "?run = (fst ?run, Finished)" by (metis prod.collapse)
  have tr: "truthy (PyStr (ustr ''s1''))" by (simp add: ustr_def)
  have leak: "?leak = (fst ?leak, snd ?leak)" by simp
  have failed: "Request (Schedule_get (PyStr (ustr ''s1''))) (Inl ApiError) \<in> set (fst ?leak)"
    by (simp add: schedule_left_behind_run)
  from schedule_cleanup [OF run, where new_schedule = ?doc and schedule_id = "PyStr (ustr ''s1'')"]
  have "Request (Schedule_delete (PyStr (ustr ''s1''))) (Inr ?doc) \<in> set (fst ?run)"
    using tr by simp
  moreover from schedule_cleanup [OF leak] failed
  have "\<forall>j x. Request (Schedule_delete j) x \<notin> set (fst ?leak)"
    by blast
  ultimately show ?thesis using fin tr failed by simp
qed

section \<open>Claims on the key-value store\<close>

lemma when_region_Inr:
  "when_act b (region render name v) k = (t, k', Inr u) \<longleftrightarrow>
     (b \<longrightarrow> snd (render name v) = None)
     \<and> t = map Print (if b then fst (render name v) else []) \<and> k' = k"
  by (auto simp: when_act_Inr region_Inr)

lemmas finished_iffs = bind_act_Inr seq_act_Inr request_Inr say_Inr emit_Inr ret_Inr lift_Inr
  region_Inr with_client_Inr run_Finished when_region_Inr

text \<open>
  What a run of 10_key_value_store.py that reaches its end has done to the store whose id
  the service returned: the seven writes and the one delete, in program order.
\<close>

lemma main_10_storage:
  assumes "main_10 render e replies = (t, Finished)" and "replies 1 = Inr new_store"
  shows "stores (replay t st) (reply_id new_store) =
     Some (delete_record (ustr ''status'')
          (set_record (ustr ''state'') (run_state (stamp e 2) 200 10) None
          (set_record (ustr ''metadata'') metadata None
          (set_record (ustr ''state'') (run_state (stamp e 1) 150 5) None
          (set_record (ustr ''pending_urls'') urls_to_scrape None
          (set_record (ustr ''status'') (PyStr (ustr ''active'')) None
          (set_record (ustr ''config'') config None
             (store_of st (reply_id new_store)))))))))"
  using assms
  by (clarsimp simp: main_10_def finished_iffs replay_append replay_prints reply_id_def store_of_def
      split: option.splits)

lemma ustr_eq_iff: "ustr a = ustr b \<longleftrightarrow> a = b"
proof -
  have "inj (of_char :: char \<Rightarrow> nat)" by (rule injI) simp
  then show ?thesis by (simp add: ustr_def inj_map_eq_map)
qed

text \<open>
  C6. On the store modelled as a mapping from keys to records: a record read after
  \<open>set_record\<close> carries the value written, the latest write wins, a key reads as
  \<open>None\<close> after \<open>delete_record\<close>, and writing or deleting one key leaves every other
  key as it was. For the script: after a run of 10_key_value_store.py that reaches its
  end, the store it created has no record under \<open>status\<close> (written, then deleted), holds
  under \<open>state\<close> the second of the two values written there, and holds under \<open>config\<close>
  the value written first, untouched by the six later operations on other keys.
\<close>

theorem kv_store_round_trip:
  "py_get (get_record k (set_record k v ct store)) ''value'' PyNone = Inr v
   \<and> py_get (get_record k (set_record k v2 ct2 (set_record k v1 ct1 store))) ''value'' PyNone
       = Inr v2
   \<and> get_record k (delete_record k store) = PyNone
   \<and> (k' \<noteq> k \<longrightarrow> get_record k' (set_record k v ct store) = get_record k' store
                 \<and> get_record k' (delete_record k store) = get_record k' store)
   \<and> (main_10 render e replies = (t, Finished) \<and> replies 1 = Inr new_store \<longrightarrow>
        get_record (ustr ''status'') (store_of (replay t st) (reply_id new_store)) = PyNone
        \<and> py_get (get_record (ustr ''state'') (store_of (replay t st) (reply_id new_store)))
             ''value'' PyNone = Inr (run_state (stamp e 2) 200 10)
        \<and> py_get (get_record (ustr ''config'') (store_of (replay t st) (reply_id new_store)))
             ''value'' PyNone = Inr config)"
proof -
  have maps: "py_get (get_record k (set_record k v ct store)) ''value'' PyNone = Inr v
     \<and> py_get (get_record k (set_record k v2 ct2 (set_record k v1 ct1 store))) ''value'' PyNone
         = Inr v2
     \<and> get_record k (delete_record k store) = PyNone
     \<and> (k' \<noteq> k \<longrightarrow> get_record k' (set_record k v ct store) = get_record k' store
                   \<and> get_record k' (delete_record k store) = get_record k' store)"
    by (simp add: get_record_def set_record_def delete_record_def ustr_eq_iff)
  have script: "get_record (ustr ''status'') (store_of (replay t st) (reply_id new_store)) = PyNone
        \<and> py_get (get_record (ustr ''state'') (store_of (replay t st) (reply_id new_store)))
             ''value'' PyNone = Inr (run_state (stamp e 2) 200 10)
        \<and> py_get (get_record (ustr ''config'') (store_of (replay t st) (reply_id new_store)))
             ''value'' PyNone = Inr config"
    if "main_10 render e replies = (t, Finished)" "replies 1 = Inr new_store"
    using main_10_storage [OF that, of st]
    by (simp add: store_of_def [of "replay t st"] get_record_def set_record_def delete_record_def
        ustr_eq_iff)
  from maps script show ?thesis by blast
qed

theorem kv_store_round_trip_witness:
  "ustr ''config'' \<noteq> ustr ''status''
   \<and> snd (main_10 (\<lambda>n v. ([], None)) 
       \<lparr>environ = [ustr ''APIFY_API_TOKEN'' \<mapsto> ustr ''token''], stamp = (\<lambda>i. [])\<rparr>
            (\<lambda>k. Inr (PyDict [(ustr ''id'', PyStr (ustr ''kv1''))]))) = Finished
   \<and> get_record (ustr ''status'')
       (store_of (replay (fst (main_10 (\<lambda>n v. ([], None)) 
       \<lparr>environ = [ustr ''APIFY_API_TOKEN'' \<mapsto> ustr ''token''], stamp = (\<lambda>i. [])\<rparr>
                    (\<lambda>k. Inr (PyDict [(ustr ''id'', PyStr (ustr ''kv1''))]))))
                  \<lparr>datasets = Map.empty, stores = Map.empty, schedules = Map.empty\<rparr>)
          (PyStr (ustr ''kv1''))) = PyNone
   \<and> get_record (ustr ''config'') (set_record (ustr ''status'') (PyStr (ustr ''active''))
        (Some (ustr ''text/plain'')) Map.empty) = PyNone"
proof -
  let ?doc = "PyDict [(ustr ''id'', PyStr (ustr ''kv1''))]"
  let ?run = "main_10 (\<lambda>n v. ([], None)) 
       \<lparr>environ = [ustr ''APIFY_API_TOKEN'' \<mapsto> ustr ''token''], stamp = (\<lambda>i. [])\<rparr> (\<lambda>k. Inr ?doc)"
  have ne: "ustr ''config'' \<noteq> ustr ''status''" by (simp add: ustr_def)
  have fin: "snd ?run = Finished"
    by (simp add: main_10_def with_client_token run_def act_defs ustr_def)
  then have run: "?run = (fst ?run, Finished)" by (metis prod.collapse)
  have id: "reply_id ?doc = PyStr (ustr ''kv1'')"
    by (simp add: reply_id_def)
  from kv_store_round_trip [where k' = "ustr ''config''" and k = "ustr ''status''"
      and v = "PyStr (ustr ''active'')" and ct = "Some (ustr ''text/plain'')"
      and store = Map.empty and render = "\<lambda>n v. ([], None)"
      and e = "
       \<lparr>environ = [ustr ''APIFY_API_TOKEN'' \<mapsto> ustr ''token''], stamp = (\<lambda>i. [])\<rparr>"
      and replies = "\<lambda>k. Inr ?doc" and t = "fst ?run" and new_store = ?doc
      and st = "\<lparr>datasets = Map.empty, stores = Map.empty, schedules = Map.empty\<rparr>"]
  show ?thesis using fin run ne by (simp add: id get_record_def)
qed

section \<open>Failures of remote calls\<close>





























lemma no_retry_no_failure: "failed_of t = [] \<Longrightarrow> no_retry t"
  by (induction t rule: no_retry.induct) simp_all







section \<open>Claim on the failures of remote calls\<close>




end
